theory Spec2Isabelle
  imports Complex_Main "HOL-Library.List_Lexorder" "HOL-Library.Char_ord"
begin

section \<open>Tables\<close>

text \<open>
  The script \<^verbatim>\<open>audit_framework.py\<close> works on pandas data frames. A data frame is
  modelled as the list of its named columns, in column order. A column holds numbers
  (the dtypes int64 and float64, both read as real numbers) or strings (dtype
  object). The arithmetic of the simulator and of the scorer is taken over the real
  numbers; the arithmetic of the reporter, whose results are compared with exact
  decimal values, is rounded to double precision after every operation (see
  \<open>fl\<close> below). Exceptions are values of the type \<open>error\<close>; a computation that can
  raise returns \<open>error + 'a\<close>.
\<close>

datatype column = NumCol "real list" | StrCol "string list"

type_synonym dataframe = "(string \<times> column) list"

datatype error = KeyError string | TypeError | ValueError | IndexError

definition and_then :: "error + 'a \<Rightarrow> ('a \<Rightarrow> error + 'b) \<Rightarrow> error + 'b" where
  "and_then m f = (case m of Inl e \<Rightarrow> Inl e | Inr x \<Rightarrow> f x)"

text \<open>\<^verbatim>\<open>df[k]\<close>: the column named \<open>k\<close>, KeyError when there is none.\<close>

fun getitem :: "dataframe \<Rightarrow> string \<Rightarrow> error + column" where
  "getitem [] k = Inl (KeyError k)"
| "getitem ((c, col) # df) k = (if c = k then Inr col else getitem df k)"

text \<open>
  \<^verbatim>\<open>df[k] = v\<close>: an existing column is overwritten where it stands, a new one is
  appended after the last column.
\<close>

fun setitem :: "dataframe \<Rightarrow> string \<Rightarrow> column \<Rightarrow> dataframe" where
  "setitem [] k v = [(k, v)]"
| "setitem ((c, col) # df) k v =
     (if c = k then (k, v) # df else (c, col) # setitem df k v)"

text \<open>A dictionary literal with string keys, and its subscript.\<close>

fun dict_get :: "(string \<times> 'v) list \<Rightarrow> string \<Rightarrow> error + 'v" where
  "dict_get [] k = Inl (KeyError k)"
| "dict_get ((c, v) # d) k = (if c = k then Inr v else dict_get d k)"

text \<open>
  Arithmetic of a column with a float, and of two columns of one frame (which share
  the frame's index, so that the rows are paired by position). A string cannot be
  multiplied or divided by a float, nor added to a number; two string columns are
  concatenated by \<open>+\<close>. On a column without rows there is no entry to fail on, and
  the result is the empty column.
\<close>

fun col_mul :: "column \<Rightarrow> real \<Rightarrow> error + column" where
  "col_mul (NumCol xs) w = Inr (NumCol (map (\<lambda>x. x * w) xs))"
| "col_mul (StrCol []) w = Inr (StrCol [])"
| "col_mul (StrCol (x # xs)) w = Inl TypeError"

fun col_div :: "column \<Rightarrow> real \<Rightarrow> error + column" where
  "col_div (NumCol xs) d = Inr (NumCol (map (\<lambda>x. x / d) xs))"
| "col_div (StrCol []) d = Inr (StrCol [])"
| "col_div (StrCol (x # xs)) d = Inl TypeError"

fun col_add :: "column \<Rightarrow> column \<Rightarrow> error + column" where
  "col_add (NumCol xs) (NumCol ys) = Inr (NumCol (map2 (\<lambda>x y. x + y) xs ys))"
| "col_add (StrCol xs) (StrCol ys) = Inr (StrCol (map2 (\<lambda>x y. x @ y) xs ys))"
| "col_add (NumCol []) (StrCol []) = Inr (StrCol [])"
| "col_add (StrCol []) (NumCol []) = Inr (StrCol [])"
| "col_add (NumCol xs) (StrCol ys) = Inl TypeError"
| "col_add (StrCol xs) (NumCol ys) = Inl TypeError"

text \<open>Column names, and whether the column of a name, where there is one, holds numbers.\<close>

definition columns :: "dataframe \<Rightarrow> string list" where
  "columns df = map fst df"

definition numeric_at :: "dataframe \<Rightarrow> string \<Rightarrow> bool" where
  "numeric_at df k = (case getitem df k of Inr (StrCol xs) \<Rightarrow> False | _ \<Rightarrow> True)"

fun col_add_scalar :: "column \<Rightarrow> real \<Rightarrow> error + column" where
  "col_add_scalar (NumCol xs) d = Inr (NumCol (map (\<lambda>x. x + d) xs))"
| "col_add_scalar (StrCol []) d = Inr (StrCol [])"
| "col_add_scalar (StrCol (x # xs)) d = Inl TypeError"

fun col_sub_scalar :: "column \<Rightarrow> real \<Rightarrow> error + column" where
  "col_sub_scalar (NumCol xs) d = Inr (NumCol (map (\<lambda>x. x - d) xs))"
| "col_sub_scalar (StrCol []) d = Inr (StrCol [])"
| "col_sub_scalar (StrCol (x # xs)) d = Inl TypeError"

text \<open>\<^verbatim>\<open>Series.clip(lower, upper)\<close>: the maximum with \<open>lower\<close>, then the minimum with \<open>upper\<close>.\<close>

definition clip :: "real \<Rightarrow> real \<Rightarrow> real \<Rightarrow> real" where
  "clip lower upper x = min upper (max lower x)"

fun col_clip :: "column \<Rightarrow> real \<Rightarrow> real \<Rightarrow> error + column" where
  "col_clip (NumCol xs) lower upper = Inr (NumCol (map (clip lower upper) xs))"
| "col_clip (StrCol xs) lower upper = Inl TypeError"

text \<open>
  \<^verbatim>\<open>Series.round(decimals)\<close> scales by a power of ten, rounds to the nearest integer
  with ties going to the even neighbour, and scales back.
\<close>

definition rint :: "real \<Rightarrow> int" where
  "rint x =
     (let f = \<lfloor>x\<rfloor>; d = x - of_int f
      in if d < 1 / 2 then f else if 1 / 2 < d then f + 1 else if even f then f else f + 1)"

definition round_to :: "nat \<Rightarrow> real \<Rightarrow> real" where
  "round_to decimals x = of_int (rint (x * 10 ^ decimals)) / 10 ^ decimals"

fun col_round :: "column \<Rightarrow> nat \<Rightarrow> error + column" where
  "col_round (NumCol xs) decimals = Inr (NumCol (map (round_to decimals) xs))"
| "col_round (StrCol xs) decimals = Inl TypeError"

text \<open>
  \<^verbatim>\<open>col == s\<close> for a string \<open>s\<close>: the boolean mask of the rows that hold \<open>s\<close> (no
  number equals a string). \<^verbatim>\<open>mask.sum()\<close> counts the rows of the mask.
\<close>

fun col_eq_str :: "column \<Rightarrow> string \<Rightarrow> bool list" where
  "col_eq_str (StrCol xs) s = map (\<lambda>x. x = s) xs"
| "col_eq_str (NumCol xs) s = map (\<lambda>x. False) xs"

definition mask_sum :: "bool list \<Rightarrow> nat" where
  "mask_sum msk = length (filter (\<lambda>b. b) msk)"

text \<open>
  \<^verbatim>\<open>df.loc[mask, k]\<close> reads the rows of column \<open>k\<close> that the mask selects, in row order.
  \<^verbatim>\<open>df.loc[mask, k] = vals\<close> writes \<open>vals\<close>, in order, into the rows of the existing
  column \<open>k\<close> that the mask selects and leaves the other rows as they are; the number
  of values must be the number of selected rows (ValueError otherwise). The script
  only assigns numbers to rows of existing numeric columns; an assignment that would
  change the kind of a column is not modelled and is given as TypeError.
\<close>

definition select_rows :: "bool list \<Rightarrow> 'a list \<Rightarrow> 'a list" where
  "select_rows msk xs = map snd (filter fst (zip msk xs))"

fun assign_rows :: "bool list \<Rightarrow> 'a list \<Rightarrow> 'a list \<Rightarrow> error + 'a list" where
  "assign_rows [] [] [] = Inr []"
| "assign_rows (True # msk) (x # xs) (v # vs) =
     and_then (assign_rows msk xs vs) (\<lambda>r. Inr (v # r))"
| "assign_rows (False # msk) (x # xs) vs =
     and_then (assign_rows msk xs vs) (\<lambda>r. Inr (x # r))"
| "assign_rows msk xs vs = Inl ValueError"

definition loc_get :: "dataframe \<Rightarrow> bool list \<Rightarrow> string \<Rightarrow> error + column" where
  "loc_get df msk k =
     and_then (getitem df k) (\<lambda>col.
       case col of
         NumCol xs \<Rightarrow> Inr (NumCol (select_rows msk xs))
       | StrCol xs \<Rightarrow> Inr (StrCol (select_rows msk xs)))"

definition loc_set :: "dataframe \<Rightarrow> bool list \<Rightarrow> string \<Rightarrow> column \<Rightarrow> error + dataframe" where
  "loc_set df msk k vals =
     and_then (getitem df k) (\<lambda>col.
       case (col, vals) of
         (NumCol xs, NumCol vs) \<Rightarrow>
           and_then (assign_rows msk xs vs) (\<lambda>r. Inr (setitem df k (NumCol r)))
       | (StrCol xs, StrCol vs) \<Rightarrow>
           and_then (assign_rows msk xs vs) (\<lambda>r. Inr (setitem df k (StrCol r)))
       | _ \<Rightarrow> Inl TypeError)"

text \<open>
  \<^verbatim>\<open>col.iloc[0]\<close> of a numeric column: its first entry, IndexError when the column
  is empty. The script uses the entry as a number; the first entry of a string
  column cannot be, which is given as TypeError.
\<close>

fun iloc0 :: "column \<Rightarrow> error + real" where
  "iloc0 (NumCol []) = Inl IndexError"
| "iloc0 (NumCol (x # xs)) = Inr x"
| "iloc0 (StrCol []) = Inl IndexError"
| "iloc0 (StrCol (x # xs)) = Inl TypeError"

text \<open>The number of rows of a column.\<close>

fun col_length :: "column \<Rightarrow> nat" where
  "col_length (NumCol xs) = length xs"
| "col_length (StrCol xs) = length xs"

section \<open>The random source\<close>

text \<open>
  The generator of numpy is not seeded by the script. Its draws are an input of the
  model: one sequence of raw draws for each call of the generator in the script. A
  draw of \<^verbatim>\<open>choice\<close> picks an entry of the given list, a draw of \<^verbatim>\<open>randint(low, high)\<close>
  is \<open>low\<close> plus an offset below \<open>high - low\<close>, and a draw of \<^verbatim>\<open>normal(loc, scale)\<close>
  is \<open>loc\<close> plus \<open>scale\<close> times a standard normal deviate, which may be any real
  number. The probabilities given to \<^verbatim>\<open>choice\<close> are all positive, so every entry can
  be drawn; they play no other role here.
\<close>

record rng =
  group_draws :: "nat \<Rightarrow> nat"
  goal_draws :: "nat \<Rightarrow> nat"
  comprehension_draws :: "nat \<Rightarrow> real"
  optout_draws :: "nat \<Rightarrow> nat"
  urgency_draws :: "nat \<Rightarrow> nat"
  goal_b_draws :: "nat \<Rightarrow> nat"

definition random_choice :: "'a list \<Rightarrow> nat \<Rightarrow> (nat \<Rightarrow> nat) \<Rightarrow> 'a list" where
  "random_choice a n draws = map (\<lambda>i. a ! (draws i mod length a)) [0..<n]"

definition random_normal :: "real \<Rightarrow> real \<Rightarrow> nat \<Rightarrow> (nat \<Rightarrow> real) \<Rightarrow> real list" where
  "random_normal loc scale n draws = map (\<lambda>i. loc + scale * draws i) [0..<n]"

definition random_randint :: "int \<Rightarrow> int \<Rightarrow> nat \<Rightarrow> (nat \<Rightarrow> nat) \<Rightarrow> int list" where
  "random_randint low high n draws =
     map (\<lambda>i. low + int (draws i) mod (high - low)) [0..<n]"

section \<open>The Data Simulator\<close>

definition n_users :: nat where
  "n_users = 1000"

text \<open>The frame as first built (lines 19 to 30).\<close>

definition df_ab :: "rng \<Rightarrow> dataframe" where
  "df_ab r =
     [(''UserID'', NumCol (map real [1000..<1000 + n_users])),
      (''Test_Group'', StrCol (random_choice [''A'', ''B''] n_users (group_draws r))),
      (''Platform_Goal_Achieved'', NumCol (random_choice [0, 1] n_users (goal_draws r))),
      (''User_Comprehension_Score'',
         NumCol (random_normal 7 1.5 n_users (comprehension_draws r))),
      (''OptOut_Difficulty_Score'',
         NumCol (map real_of_int (random_randint 1 10 n_users (optout_draws r)))),
      (''Urgency_Messaging_Score'',
         NumCol (map real_of_int (random_randint 1 10 n_users (urgency_draws r))))]"

text \<open>The bias injected into the rows of group B (lines 34 to 37).\<close>

definition inject_bias :: "rng \<Rightarrow> dataframe \<Rightarrow> error + dataframe" where
  "inject_bias r df =
     and_then (getitem df ''Test_Group'') (\<lambda>test_group.
     let mask_b = col_eq_str test_group ''B'' in
     and_then (loc_set df mask_b ''Platform_Goal_Achieved''
                 (NumCol (random_choice [0, 1] (mask_sum mask_b) (goal_b_draws r)))) (\<lambda>df1.
     and_then (loc_get df1 mask_b ''User_Comprehension_Score'') (\<lambda>comprehension.
     and_then (col_sub_scalar comprehension 1.0) (\<lambda>lowered.
     and_then (loc_set df1 mask_b ''User_Comprehension_Score'' lowered) (\<lambda>df2.
     and_then (loc_get df2 mask_b ''Urgency_Messaging_Score'') (\<lambda>urgency.
     and_then (col_clip urgency 1 8) (\<lambda>clipped.
     and_then (col_add_scalar clipped 2.0) (\<lambda>raised.
     loc_set df2 mask_b ''Urgency_Messaging_Score'' raised))))))))"

text \<open>The clean-up of the two scores over all rows (lines 40 and 41).\<close>

definition clean_up :: "dataframe \<Rightarrow> error + dataframe" where
  "clean_up df =
     and_then (getitem df ''User_Comprehension_Score'') (\<lambda>comprehension.
     and_then (col_clip comprehension 1 10) (\<lambda>clipped.
     and_then (col_round clipped 1) (\<lambda>rounded.
     let df1 = setitem df ''User_Comprehension_Score'' rounded in
     and_then (getitem df1 ''Urgency_Messaging_Score'') (\<lambda>urgency.
     and_then (col_clip urgency 1 10) (\<lambda>clipped_urgency.
     Inr (setitem df1 ''Urgency_Messaging_Score'' clipped_urgency))))))"

text \<open>\<^verbatim>\<open>simulate_data\<close> (lines 9 to 43), the three steps in sequence.\<close>

definition simulate_data :: "rng \<Rightarrow> error + dataframe" where
  "simulate_data r = and_then (inject_bias r (df_ab r)) clean_up"

section \<open>The Deficit Scorer\<close>

definition WEIGHTS :: "(string \<times> real) list" where
  "WEIGHTS = [(''OptOut_Difficulty_Score'', 0.4), (''Urgency_Messaging_Score'', 0.5)]"

definition max_possible_score :: real where
  "max_possible_score = (10 * 0.4) + (10 * 0.5)"

text \<open>
  \<^verbatim>\<open>calculate_autonomy_deficit\<close> (lines 45 to 67). The frame is changed in place and
  returned; the model returns the changed frame. The subexpressions are evaluated
  from left to right, as Python does, so the first one that raises decides the error.
\<close>

definition calculate_autonomy_deficit :: "dataframe \<Rightarrow> error + dataframe" where
  "calculate_autonomy_deficit df =
     and_then (getitem df ''OptOut_Difficulty_Score'') (\<lambda>optout.
     and_then (dict_get WEIGHTS ''OptOut_Difficulty_Score'') (\<lambda>w_optout.
     and_then (col_mul optout w_optout) (\<lambda>lhs.
     and_then (getitem df ''Urgency_Messaging_Score'') (\<lambda>urgency.
     and_then (dict_get WEIGHTS ''Urgency_Messaging_Score'') (\<lambda>w_urgency.
     and_then (col_mul urgency w_urgency) (\<lambda>rhs.
     and_then (col_add lhs rhs) (\<lambda>nad.
     let df1 = setitem df ''NAD_Score'' nad in
     and_then (getitem df1 ''NAD_Score'') (\<lambda>nad_score.
     and_then (col_div nad_score max_possible_score) (\<lambda>normalized.
     Inr (setitem df1 ''NAD_Score_Normalized'' normalized))))))))))"

section \<open>The Trade-off Reporter\<close>

text \<open>
  The reporter computes with float64 numbers. \<open>fl x\<close> is the double nearest to the
  real number \<open>x\<close>, ties going to the even significand: \<open>normalize_mantissa\<close> scales
  the absolute value by powers of two into the range of a 53-bit significand, not
  going below the exponent of the subnormal numbers, and the scaled value is rounded
  to an integer. Every float64 operation of the reporter is the exact operation
  followed by \<open>fl\<close>. Infinities and NaN are not modelled: the exponent has no upper
  limit here.
\<close>

function normalize_mantissa :: "real \<Rightarrow> int \<Rightarrow> real \<times> int" where
  "normalize_mantissa m e =
     (if 2 ^ 53 \<le> m then normalize_mantissa (m / 2) (e + 1)
      else if 0 < m \<and> m < 2 ^ 52 \<and> - 1074 < e then normalize_mantissa (m * 2) (e - 1)
      else (m, e))"
  by pat_completeness auto
termination
proof (relation "(\<lambda>(m, e). if 2 ^ 53 \<le> m then nat \<lceil>m\<rceil> else 0) <*mlex*>
    measure (\<lambda>(m, e). nat (e + 1074))", goal_cases)
  case 1
  show ?case by (simp add: wf_mlex)
next
  case (2 m e)
  have "\<lceil>m / 2\<rceil> < \<lceil>m\<rceil>" if "2 ^ 53 \<le> m / 2"
  proof -
    have "m / 2 + 1 \<le> m" using that by simp
    then have "\<lceil>m / 2 + 1\<rceil> \<le> \<lceil>m\<rceil>" by (rule ceiling_mono)
    then show ?thesis by simp
  qed
  moreover have "0 < \<lceil>m\<rceil>" using 2 by (simp add: ceiling_less_iff not_less)
  ultimately show ?case using 2
    by (auto intro!: mlex_less)
next
  case (3 m e)
  then show ?case
    by (auto intro!: mlex_leq)
qed

declare normalize_mantissa.simps [simp del]

definition fl :: "real \<Rightarrow> real" where
  "fl x = (case normalize_mantissa \<bar>x\<bar> 0 of (m, e) \<Rightarrow> sgn x * of_int (rint m) * 2 powi e)"

text \<open>
  The mean of a group, as the aggregation \<^verbatim>\<open>'mean'\<close> of a pandas group-by computes it:
  the values are added up in row order with compensated (Kahan) summation, and the
  sum is divided by the number of values.
\<close>

fun kahan_sum :: "real \<Rightarrow> real \<Rightarrow> real list \<Rightarrow> real" where
  "kahan_sum sumx compensation [] = sumx"
| "kahan_sum sumx compensation (val # vals) =
     (let y = fl (val - compensation);
          t = fl (sumx + y)
      in kahan_sum t (fl (fl (t - sumx) - y)) vals)"

definition mean :: "real list \<Rightarrow> real" where
  "mean xs = fl (kahan_sum 0 0 xs / real (length xs))"

text \<open>
  \<^verbatim>\<open>df.groupby(key).agg(... 'mean')\<close>: one row for each key that occurs, keys in
  ascending order, with the mean of the value column over the rows of that key.
\<close>

definition group_keys :: "'k::linorder list \<Rightarrow> 'k list" where
  "group_keys ks = sort (remdups ks)"

definition group_rows :: "'k list \<Rightarrow> 'a list \<Rightarrow> 'k \<Rightarrow> 'a list" where
  "group_rows ks vs k = map snd (filter (\<lambda>p. fst p = k) (zip ks vs))"

fun agg_mean :: "'k::linorder list \<Rightarrow> column \<Rightarrow> error + real list" where
  "agg_mean ks (NumCol vs) = Inr (map (\<lambda>k. mean (group_rows ks vs k)) (group_keys ks))"
| "agg_mean ks (StrCol vs) = Inl TypeError"

definition group_metrics :: "dataframe \<Rightarrow> error + dataframe" where
  "group_metrics df =
     and_then (getitem df ''Test_Group'') (\<lambda>test_group.
     and_then (getitem df ''Platform_Goal_Achieved'') (\<lambda>goal.
     and_then (getitem df ''User_Comprehension_Score'') (\<lambda>comprehension.
       case test_group of
         StrCol ks \<Rightarrow>
           and_then (agg_mean ks goal) (\<lambda>goal_rate.
           and_then (agg_mean ks comprehension) (\<lambda>comprehension_avg.
           Inr [(''Test_Group'', StrCol (group_keys ks)),
                (''Goal_Rate'', NumCol goal_rate),
                (''Comprehension_Avg'', NumCol comprehension_avg)]))
       | NumCol ks \<Rightarrow>
           and_then (agg_mean ks goal) (\<lambda>goal_rate.
           and_then (agg_mean ks comprehension) (\<lambda>comprehension_avg.
           Inr [(''Test_Group'', NumCol (group_keys ks)),
                (''Goal_Rate'', NumCol goal_rate),
                (''Comprehension_Avg'', NumCol comprehension_avg)])))))"

text \<open>\<^verbatim>\<open>group_metrics.loc[group_metrics['Test_Group'] == g, k].iloc[0]\<close>.\<close>

definition metric_of :: "dataframe \<Rightarrow> string \<Rightarrow> string \<Rightarrow> error + real" where
  "metric_of gm g k =
     and_then (getitem gm ''Test_Group'') (\<lambda>test_group.
     and_then (loc_get gm (col_eq_str test_group g) k) iloc0)"

text \<open>
  \<^verbatim>\<open>generate_visualization\<close> (lines 69 to 120) up to the table \<^verbatim>\<open>tradeoff_data\<close>
  of line 91, which is all that the chart is drawn from; the model returns that
  table. Drawing the chart is left to the plotting library. The two values are
  computed in float64: each subtraction and the multiplication by 100 is rounded.
\<close>

definition generate_visualization :: "dataframe \<Rightarrow> error + dataframe" where
  "generate_visualization df =
     and_then (group_metrics df) (\<lambda>gm.
     and_then (metric_of gm ''B'' ''Goal_Rate'') (\<lambda>goal_b.
     and_then (metric_of gm ''A'' ''Goal_Rate'') (\<lambda>goal_a.
     let nudge_effect = fl (fl (goal_b - goal_a) * 100) in
     and_then (metric_of gm ''A'' ''Comprehension_Avg'') (\<lambda>comprehension_a.
     and_then (metric_of gm ''B'' ''Comprehension_Avg'') (\<lambda>comprehension_b.
     let ethical_cost = fl (comprehension_a - comprehension_b) in
     Inr [(''Metric'', StrCol [''Platform Goal Increase (%)'',
                                ''User Comprehension Drop (Points)'']),
          (''Value'', NumCol [nudge_effect, ethical_cost]),
          (''Type'', StrCol [''Platform Gain (Desired)'',
                              ''User Cost (Ethical Concern)''])])))))"

section \<open>Example tables\<close>

definition example_optout :: "real list" where
  "example_optout = [2, 10, 1, 20]"

definition example_urgency :: "real list" where
  "example_urgency = [3, 10, 1, 30]"

definition example_table :: dataframe where
  "example_table =
     [(''UserID'', NumCol [1000, 1001, 1002, 1003]),
      (''OptOut_Difficulty_Score'', NumCol example_optout),
      (''Urgency_Messaging_Score'', NumCol example_urgency)]"

text \<open>
  A table of 4 rows of group A, one of which achieved the goal, and 20 rows of group B,
  7 of which did; and two tables on which one group has no row.
\<close>

definition example_groups :: "string list" where
  "example_groups =
     [''A'', ''B'', ''B'', ''B'', ''B'', ''B'', ''A'', ''B'', ''B'', ''B'', ''B'', ''B'',
      ''A'', ''B'', ''B'', ''B'', ''B'', ''B'', ''A'', ''B'', ''B'', ''B'', ''B'', ''B'']"

definition example_goals :: "real list" where
  "example_goals =
     [1, 1, 0, 0, 1, 0, 0, 1, 0, 0, 1, 0,
      0, 1, 0, 0, 1, 0, 0, 1, 0, 0, 0, 0]"

definition example_comprehension :: "real list" where
  "example_comprehension =
     [7, 6, 6, 6, 6, 6, 8, 6, 6, 6, 6, 6,
      6, 5, 5, 5, 5, 5, 7, 5, 5, 5, 5, 5]"

definition example_scored :: dataframe where
  "example_scored =
     [(''Test_Group'', StrCol example_groups),
      (''Platform_Goal_Achieved'', NumCol example_goals),
      (''User_Comprehension_Score'', NumCol example_comprehension)]"

definition example_only_a :: dataframe where
  "example_only_a =
     [(''Test_Group'', StrCol [''A'', ''A'']),
      (''Platform_Goal_Achieved'', NumCol [0, 1]),
      (''User_Comprehension_Score'', NumCol [7, 6.5])]"

definition example_only_b :: dataframe where
  "example_only_b =
     [(''Test_Group'', StrCol [''B'', ''B'']),
      (''Platform_Goal_Achieved'', NumCol [0, 1]),
      (''User_Comprehension_Score'', NumCol [7, 6.5])]"

text \<open>
  A random source: the groups alternate between A and B, starting with A, and the
  urgency draws of the first two rows are 8 and 9.
\<close>

definition example_rng :: rng where
  "example_rng =
     \<lparr>group_draws = (\<lambda>i. i), goal_draws = (\<lambda>i. i), comprehension_draws = (\<lambda>i. real i - 3),
      optout_draws = (\<lambda>i. i), urgency_draws = (\<lambda>i. i + 7), goal_b_draws = (\<lambda>i. 1)\<rparr>"

section \<open>Facts about tables\<close>

lemma and_then_Inr [simp]: "and_then (Inr x) f = f x"
  by (simp add: and_then_def)

lemma and_then_Inl [simp]: "and_then (Inl e) f = Inl e"
  by (simp add: and_then_def)

lemma getitem_setitem: "getitem (setitem df k v) k' = (if k' = k then Inr v else getitem df k')"
  by (induction df k v rule: setitem.induct) auto

lemma max_possible_score_eq: "max_possible_score = 9"
  by (simp add: max_possible_score_def)

lemma weight_optout: "dict_get WEIGHTS ''OptOut_Difficulty_Score'' = Inr 0.4"
  by (simp add: WEIGHTS_def)

lemma weight_urgency: "dict_get WEIGHTS ''Urgency_Messaging_Score'' = Inr 0.5"
  by (simp add: WEIGHTS_def)

text \<open>The result of the scorer on a frame whose two feature columns hold numbers.\<close>

lemma scorer_result:
  assumes "getitem df ''OptOut_Difficulty_Score'' = Inr (NumCol os)"
    and "getitem df ''Urgency_Messaging_Score'' = Inr (NumCol us)"
  shows "calculate_autonomy_deficit df =
      Inr (setitem (setitem df ''NAD_Score'' (NumCol (map2 (\<lambda>x y. x + y)
              (map (\<lambda>x. x * 0.4) os) (map (\<lambda>x. x * 0.5) us))))
            ''NAD_Score_Normalized''
            (NumCol (map (\<lambda>x. x / 9) (map2 (\<lambda>x y. x + y)
              (map (\<lambda>x. x * 0.4) os) (map (\<lambda>x. x * 0.5) us)))))"
  by (simp add: calculate_autonomy_deficit_def assms weight_optout weight_urgency
      getitem_setitem max_possible_score_eq)

lemma getitem_absent: "k \<notin> set (columns df) \<Longrightarrow> getitem df k = Inl (KeyError k)"
  by (induction df) (auto simp: columns_def)

lemma getitem_present: "k \<in> set (columns df) \<Longrightarrow> \<exists>col. getitem df k = Inr col"
  by (induction df) (force simp: columns_def)+

lemma getitem_Inl_iff: "getitem df k = Inl e \<longleftrightarrow> k \<notin> set (columns df) \<and> e = KeyError k"
  by (induction df) (auto simp: columns_def split: if_splits)

lemma setitem_same: "getitem df k = Inr v \<Longrightarrow> setitem df k v = df"
  by (induction df k v rule: setitem.induct) (auto split: if_splits)

lemma columns_setitem:
  "columns (setitem df k v) = (if k \<in> set (columns df) then columns df else columns df @ [k])"
  by (induction df k v rule: setitem.induct) (auto simp: columns_def)

lemma setitem_absent: "k \<notin> set (columns df) \<Longrightarrow> setitem df k v = df @ [(k, v)]"
  by (induction df k v rule: setitem.induct) (auto simp: columns_def)

lemma filter_setitem:
  "\<not> P k \<Longrightarrow> filter (\<lambda>p. P (fst p)) (setitem df k v) = filter (\<lambda>p. P (fst p)) df"
  by (induction df k v rule: setitem.induct) auto

lemma scorer_idempotent:
  assumes o: "getitem df ''OptOut_Difficulty_Score'' = Inr (NumCol os)"
    and u: "getitem df ''Urgency_Messaging_Score'' = Inr (NumCol us)"
    and r: "calculate_autonomy_deficit df = Inr df'"
  shows "calculate_autonomy_deficit df' = Inr df'"
proof -
  let ?nad = "NumCol (map2 (\<lambda>x y. x + y) (map (\<lambda>x. x * 0.4) os) (map (\<lambda>x. x * 0.5) us))"
  let ?nadn = "NumCol (map (\<lambda>x. x / 9) (map2 (\<lambda>x y. x + y) (map (\<lambda>x. x * 0.4) os) (map (\<lambda>x. x * 0.5) us)))"
  have df': "df' = setitem (setitem df ''NAD_Score'' ?nad) ''NAD_Score_Normalized'' ?nadn"
    using r scorer_result [OF o u] by simp
  have o': "getitem df' ''OptOut_Difficulty_Score'' = Inr (NumCol os)"
    using o by (simp add: df' getitem_setitem)
  have u': "getitem df' ''Urgency_Messaging_Score'' = Inr (NumCol us)"
    using u by (simp add: df' getitem_setitem)
  have n1: "getitem df' ''NAD_Score'' = Inr ?nad"
    by (simp add: df' getitem_setitem)
  have n2: "getitem df' ''NAD_Score_Normalized'' = Inr ?nadn"
    by (simp add: df' getitem_setitem)
  have s1: "setitem df' ''NAD_Score'' ?nad = df'"
    using n1 by (rule setitem_same)
  have s2: "setitem df' ''NAD_Score_Normalized'' ?nadn = df'"
    using n2 by (rule setitem_same)
  show ?thesis
    unfolding scorer_result [OF o' u'] s1 s2 ..
qed

lemma scorer_type_error:
  "getitem df ''OptOut_Difficulty_Score'' = Inr (StrCol (x # xs)) \<Longrightarrow>
   calculate_autonomy_deficit df = Inl TypeError"
  by (simp add: calculate_autonomy_deficit_def weight_optout)

lemma example_table_optout:
  "getitem example_table ''OptOut_Difficulty_Score'' = Inr (NumCol example_optout)"
  by (simp add: example_table_def)

lemma example_table_urgency:
  "getitem example_table ''Urgency_Messaging_Score'' = Inr (NumCol example_urgency)"
  by (simp add: example_table_def)

section \<open>The claims about the Deficit Scorer\<close>

text \<open>
  Claim C1. On every table whose columns OptOut_Difficulty_Score and
  Urgency_Messaging_Score hold numbers, the scorer returns a table in which, for every
  row, NAD_Score is 0.4 times the first plus 0.5 times the second, whatever their
  size, and NAD_Score_Normalized is NAD_Score divided by 9.0. A row with the scores 2
  and 3 gets 2.3 and, to four decimals, 0.2556; a row with 10 and 10 gets 9.0 and 1.0.
\<close>

theorem C1_nad_formula:
  assumes "getitem df ''OptOut_Difficulty_Score'' = Inr (NumCol os)"
    and "getitem df ''Urgency_Messaging_Score'' = Inr (NumCol us)"
    and "length os = length us"
  shows "\<exists>df' nad nadn.
      calculate_autonomy_deficit df = Inr df' \<and>
      getitem df' ''NAD_Score'' = Inr (NumCol nad) \<and>
      getitem df' ''NAD_Score_Normalized'' = Inr (NumCol nadn) \<and>
      length nad = length os \<and> length nadn = length os \<and>
      (\<forall>i < length os.
         nad ! i = 0.4 * os ! i + 0.5 * us ! i \<and>
         nadn ! i = nad ! i / 9.0 \<and>
         (os ! i = 2 \<and> us ! i = 3 \<longrightarrow> nad ! i = 2.3 \<and> \<bar>nadn ! i - 0.2556\<bar> < 0.00005) \<and>
         (os ! i = 10 \<and> us ! i = 10 \<longrightarrow> nad ! i = 9.0 \<and> nadn ! i = 1.0))"
proof -
  let ?nad = "map2 (\<lambda>x y. x + y) (map (\<lambda>x. x * 0.4) os) (map (\<lambda>x. x * 0.5) us)"
  let ?nadn = "map (\<lambda>x. x / 9) ?nad"
  let ?df' = "setitem (setitem df ''NAD_Score'' (NumCol ?nad)) ''NAD_Score_Normalized'' (NumCol ?nadn)"
  have run: "calculate_autonomy_deficit df = Inr ?df'"
    using assms(1,2) by (rule scorer_result)
  have g1: "getitem ?df' ''NAD_Score'' = Inr (NumCol ?nad)"
    by (simp add: getitem_setitem)
  have g2: "getitem ?df' ''NAD_Score_Normalized'' = Inr (NumCol ?nadn)"
    by (simp add: getitem_setitem)
  have l1: "length ?nad = length os" and l2: "length ?nadn = length os"
    using assms(3) by simp_all
  have rows: "\<forall>i < length os.
         ?nad ! i = 0.4 * os ! i + 0.5 * us ! i \<and>
         ?nadn ! i = ?nad ! i / 9.0 \<and>
         (os ! i = 2 \<and> us ! i = 3 \<longrightarrow> ?nad ! i = 2.3 \<and> \<bar>?nadn ! i - 0.2556\<bar> < 0.00005) \<and>
         (os ! i = 10 \<and> us ! i = 10 \<longrightarrow> ?nad ! i = 9.0 \<and> ?nadn ! i = 1.0)"
  proof (intro allI impI)
    fix i assume i: "i < length os"
    then have n: "?nad ! i = 0.4 * os ! i + 0.5 * us ! i"
      using assms(3) by simp
    have m: "?nadn ! i = ?nad ! i / 9.0"
      using i assms(3) by simp
    show "?nad ! i = 0.4 * os ! i + 0.5 * us ! i \<and>
         ?nadn ! i = ?nad ! i / 9.0 \<and>
         (os ! i = 2 \<and> us ! i = 3 \<longrightarrow> ?nad ! i = 2.3 \<and> \<bar>?nadn ! i - 0.2556\<bar> < 0.00005) \<and>
         (os ! i = 10 \<and> us ! i = 10 \<longrightarrow> ?nad ! i = 9.0 \<and> ?nadn ! i = 1.0)"
      unfolding m n by (simp add: abs_if)
  qed
  from run g1 g2 l1 l2 rows show ?thesis by blast
qed

text \<open>The four-row table of the example, whose last row lies above the nominal maximum.\<close>

theorem C1_nad_formula_witness:
  "\<exists>df' nad nadn.
      calculate_autonomy_deficit example_table = Inr df' \<and>
      getitem df' ''NAD_Score'' = Inr (NumCol nad) \<and>
      getitem df' ''NAD_Score_Normalized'' = Inr (NumCol nadn) \<and>
      length nad = 4 \<and> length nadn = 4 \<and>
      nad ! 0 = 2.3 \<and> \<bar>nadn ! 0 - 0.2556\<bar> < 0.00005 \<and> nad ! 1 = 9.0 \<and> nadn ! 1 = 1.0 \<and>
      nad ! 3 = 23 \<and> 1 < nadn ! 3"
proof -
  have a: "getitem example_table ''OptOut_Difficulty_Score'' = Inr (NumCol example_optout)"
    by (simp add: example_table_def)
  have b: "getitem example_table ''Urgency_Messaging_Score'' = Inr (NumCol example_urgency)"
    by (simp add: example_table_def)
  have c: "length example_optout = length example_urgency"
    by (simp add: example_optout_def example_urgency_def)
  from C1_nad_formula [OF a b c] obtain df' nad nadn where
    r: "calculate_autonomy_deficit example_table = Inr df'"
      "getitem df' ''NAD_Score'' = Inr (NumCol nad)"
      "getitem df' ''NAD_Score_Normalized'' = Inr (NumCol nadn)"
      "length nad = length example_optout" "length nadn = length example_optout"
    and rows: "\<forall>i < length example_optout.
         nad ! i = 0.4 * example_optout ! i + 0.5 * example_urgency ! i \<and>
         nadn ! i = nad ! i / 9.0 \<and>
         (example_optout ! i = 2 \<and> example_urgency ! i = 3 \<longrightarrow>
            nad ! i = 2.3 \<and> \<bar>nadn ! i - 0.2556\<bar> < 0.00005) \<and>
         (example_optout ! i = 10 \<and> example_urgency ! i = 10 \<longrightarrow>
            nad ! i = 9.0 \<and> nadn ! i = 1.0)"
    by (elim exE conjE)
  have r0: "nad ! 0 = 2.3 \<and> \<bar>nadn ! 0 - 0.2556\<bar> < 0.00005"
    using rows [rule_format, of 0] by (simp add: example_optout_def example_urgency_def)
  have r1: "nad ! 1 = 9.0 \<and> nadn ! 1 = 1.0"
    using rows [rule_format, of 1] by (simp add: example_optout_def example_urgency_def)
  have r3: "nad ! 3 = 23 \<and> 1 < nadn ! 3"
    using rows [rule_format, of 3] by (simp add: example_optout_def example_urgency_def)
  have l: "length example_optout = 4"
    by (simp add: example_optout_def)
  from r r0 r1 r3 l show ?thesis by auto
qed

text \<open>
  Claim C7. The scorer returns the table it was given with nothing changed but the
  columns NAD_Score and NAD_Score_Normalized: every other column is found under its
  name with its values as before, the other columns keep their order, and on a table
  that has neither of the two columns they are appended, in this order, after the
  last column.
\<close>

theorem C7_frame:
  assumes "getitem df ''OptOut_Difficulty_Score'' = Inr (NumCol os)"
    and "getitem df ''Urgency_Messaging_Score'' = Inr (NumCol us)"
  shows "\<exists>df' nad nadn.
      calculate_autonomy_deficit df = Inr df' \<and>
      (\<forall>c. c \<noteq> ''NAD_Score'' \<and> c \<noteq> ''NAD_Score_Normalized'' \<longrightarrow> getitem df' c = getitem df c) \<and>
      filter (\<lambda>p. fst p \<noteq> ''NAD_Score'' \<and> fst p \<noteq> ''NAD_Score_Normalized'') df' =
      filter (\<lambda>p. fst p \<noteq> ''NAD_Score'' \<and> fst p \<noteq> ''NAD_Score_Normalized'') df \<and>
      getitem df' ''NAD_Score'' = Inr nad \<and>
      getitem df' ''NAD_Score_Normalized'' = Inr nadn \<and>
      set (columns df') = set (columns df) \<union> {''NAD_Score'', ''NAD_Score_Normalized''} \<and>
      (''NAD_Score'' \<notin> set (columns df) \<and> ''NAD_Score_Normalized'' \<notin> set (columns df) \<longrightarrow>
         df' = df @ [(''NAD_Score'', nad), (''NAD_Score_Normalized'', nadn)])"
proof -
  let ?nad = "NumCol (map2 (\<lambda>x y. x + y) (map (\<lambda>x. x * 0.4) os) (map (\<lambda>x. x * 0.5) us))"
  let ?nadn = "NumCol (map (\<lambda>x. x / 9) (map2 (\<lambda>x y. x + y) (map (\<lambda>x. x * 0.4) os) (map (\<lambda>x. x * 0.5) us)))"
  let ?df' = "setitem (setitem df ''NAD_Score'' ?nad) ''NAD_Score_Normalized'' ?nadn"
  have run: "calculate_autonomy_deficit df = Inr ?df'"
    using assms by (rule scorer_result)
  have others: "\<forall>c. c \<noteq> ''NAD_Score'' \<and> c \<noteq> ''NAD_Score_Normalized'' \<longrightarrow> getitem ?df' c = getitem df c"
    by (simp add: getitem_setitem)
  have order: "filter (\<lambda>p. fst p \<noteq> ''NAD_Score'' \<and> fst p \<noteq> ''NAD_Score_Normalized'') ?df' =
      filter (\<lambda>p. fst p \<noteq> ''NAD_Score'' \<and> fst p \<noteq> ''NAD_Score_Normalized'') df"
    using filter_setitem [of "\<lambda>c. c \<noteq> ''NAD_Score'' \<and> c \<noteq> ''NAD_Score_Normalized''"]
    by simp
  have g1: "getitem ?df' ''NAD_Score'' = Inr ?nad"
    by (simp add: getitem_setitem)
  have g2: "getitem ?df' ''NAD_Score_Normalized'' = Inr ?nadn"
    by (simp add: getitem_setitem)
  have names: "set (columns ?df') = set (columns df) \<union> {''NAD_Score'', ''NAD_Score_Normalized''}"
    by (auto simp: columns_setitem)
  have app: "''NAD_Score'' \<notin> set (columns df) \<and> ''NAD_Score_Normalized'' \<notin> set (columns df) \<longrightarrow>
         ?df' = df @ [(''NAD_Score'', ?nad), (''NAD_Score_Normalized'', ?nadn)]"
  proof (intro impI, elim conjE)
    assume a: "''NAD_Score'' \<notin> set (columns df)"
      and b: "''NAD_Score_Normalized'' \<notin> set (columns df)"
    have 1: "setitem df ''NAD_Score'' ?nad = df @ [(''NAD_Score'', ?nad)]"
      using a by (rule setitem_absent)
    have 2: "''NAD_Score_Normalized'' \<notin> set (columns (df @ [(''NAD_Score'', ?nad)]))"
      using b by (simp add: columns_def)
    show "?df' = df @ [(''NAD_Score'', ?nad), (''NAD_Score_Normalized'', ?nadn)]"
      unfolding 1 using setitem_absent [OF 2] by simp
  qed
  from run others order g1 g2 names app show ?thesis by blast
qed

theorem C7_frame_witness:
  "\<exists>df' nad nadn.
      calculate_autonomy_deficit example_table = Inr df' \<and>
      df' = example_table @ [(''NAD_Score'', nad), (''NAD_Score_Normalized'', nadn)] \<and>
      getitem df' ''UserID'' = Inr (NumCol [1000, 1001, 1002, 1003]) \<and>
      getitem df' ''OptOut_Difficulty_Score'' = Inr (NumCol example_optout)"
proof -
  have n: "''NAD_Score'' \<notin> set (columns example_table) \<and>
      ''NAD_Score_Normalized'' \<notin> set (columns example_table)"
    by (simp add: example_table_def columns_def)
  have u: "getitem example_table ''UserID'' = Inr (NumCol [1000, 1001, 1002, 1003])"
    by (simp add: example_table_def)
  from C7_frame [OF example_table_optout example_table_urgency] obtain df' nad nadn where
    r: "calculate_autonomy_deficit example_table = Inr df'"
    and f: "\<forall>c. c \<noteq> ''NAD_Score'' \<and> c \<noteq> ''NAD_Score_Normalized'' \<longrightarrow>
        getitem df' c = getitem example_table c"
    and a: "''NAD_Score'' \<notin> set (columns example_table) \<and>
        ''NAD_Score_Normalized'' \<notin> set (columns example_table) \<longrightarrow>
        df' = example_table @ [(''NAD_Score'', nad), (''NAD_Score_Normalized'', nadn)]"
    by (elim exE conjE)
  have 1: "df' = example_table @ [(''NAD_Score'', nad), (''NAD_Score_Normalized'', nadn)]"
    using a n by (rule mp)
  have 2: "getitem df' ''UserID'' = Inr (NumCol [1000, 1001, 1002, 1003])"
    using f [rule_format, of "''UserID''"] u by simp
  have 3: "getitem df' ''OptOut_Difficulty_Score'' = Inr (NumCol example_optout)"
    using f [rule_format, of "''OptOut_Difficulty_Score''"] example_table_optout by simp
  from r 1 2 3 show ?thesis by blast
qed

text \<open>
  Claim C8. Scoring a table and then scoring the result gives the result of the
  first scoring: the second call overwrites NAD_Score and NAD_Score_Normalized with
  the values they already have. The scorer is a function of the table alone.
\<close>

theorem C8_idempotent:
  assumes "getitem df ''OptOut_Difficulty_Score'' = Inr (NumCol os)"
    and "getitem df ''Urgency_Messaging_Score'' = Inr (NumCol us)"
  shows "\<exists>df'. calculate_autonomy_deficit df = Inr df' \<and>
      and_then (calculate_autonomy_deficit df) calculate_autonomy_deficit = Inr df' \<and>
      getitem df' ''NAD_Score'' = Inr (NumCol (map2 (\<lambda>x y. x + y) (map (\<lambda>x. x * 0.4) os) (map (\<lambda>x. x * 0.5) us)))"
proof -
  from scorer_result [OF assms] obtain df' where r: "calculate_autonomy_deficit df = Inr df'"
    and d: "df' = setitem (setitem df ''NAD_Score'' (NumCol (map2 (\<lambda>x y. x + y)
              (map (\<lambda>x. x * 0.4) os) (map (\<lambda>x. x * 0.5) us))))
            ''NAD_Score_Normalized''
            (NumCol (map (\<lambda>x. x / 9) (map2 (\<lambda>x y. x + y)
              (map (\<lambda>x. x * 0.4) os) (map (\<lambda>x. x * 0.5) us))))"
    by simp
  have "and_then (calculate_autonomy_deficit df) calculate_autonomy_deficit = Inr df'"
    using scorer_idempotent [OF assms r] by (simp add: r)
  moreover have "getitem df' ''NAD_Score'' = Inr (NumCol (map2 (\<lambda>x y. x + y) (map (\<lambda>x. x * 0.4) os) (map (\<lambda>x. x * 0.5) us)))"
    by (simp add: d getitem_setitem)
  ultimately show ?thesis using r by blast
qed

theorem C8_idempotent_witness:
  "\<exists>df'. calculate_autonomy_deficit example_table = Inr df' \<and>
      and_then (calculate_autonomy_deficit example_table) calculate_autonomy_deficit = Inr df'"
  using C8_idempotent [OF example_table_optout example_table_urgency] by blast

text \<open>
  Claim C9. On a table whose feature columns, where present, hold numbers (as the
  data model has them), the scorer fails with a KeyError exactly when
  OptOut_Difficulty_Score or Urgency_Messaging_Score is missing, the error naming the
  first missing one, and returns a table exactly when both are present.
\<close>

theorem C9_missing_column:
  assumes "numeric_at df ''OptOut_Difficulty_Score''"
    and "numeric_at df ''Urgency_Messaging_Score''"
  shows "((\<exists>k. calculate_autonomy_deficit df = Inl (KeyError k)) \<longleftrightarrow>
            ''OptOut_Difficulty_Score'' \<notin> set (columns df) \<or>
            ''Urgency_Messaging_Score'' \<notin> set (columns df)) \<and>
         ((\<exists>df'. calculate_autonomy_deficit df = Inr df') \<longleftrightarrow>
            ''OptOut_Difficulty_Score'' \<in> set (columns df) \<and>
            ''Urgency_Messaging_Score'' \<in> set (columns df)) \<and>
         (''OptOut_Difficulty_Score'' \<notin> set (columns df) \<longrightarrow>
            calculate_autonomy_deficit df = Inl (KeyError ''OptOut_Difficulty_Score'')) \<and>
         (''OptOut_Difficulty_Score'' \<in> set (columns df) \<and>
          ''Urgency_Messaging_Score'' \<notin> set (columns df) \<longrightarrow>
            calculate_autonomy_deficit df = Inl (KeyError ''Urgency_Messaging_Score''))"
proof -
  have no_o: "calculate_autonomy_deficit df = Inl (KeyError ''OptOut_Difficulty_Score'')"
    if "''OptOut_Difficulty_Score'' \<notin> set (columns df)"
    using getitem_absent [OF that] by (simp add: calculate_autonomy_deficit_def)
  have no_u: "calculate_autonomy_deficit df = Inl (KeyError ''Urgency_Messaging_Score'')"
    if o: "''OptOut_Difficulty_Score'' \<in> set (columns df)"
      and u: "''Urgency_Messaging_Score'' \<notin> set (columns df)"
  proof -
    from getitem_present [OF o] obtain col where c: "getitem df ''OptOut_Difficulty_Score'' = Inr col"
      by blast
    with assms(1) obtain os where "col = NumCol os"
      by (cases col) (simp_all add: numeric_at_def)
    with c getitem_absent [OF u] show ?thesis
      by (simp add: calculate_autonomy_deficit_def weight_optout)
  qed
  have both: "\<exists>df'. calculate_autonomy_deficit df = Inr df'"
    if o: "''OptOut_Difficulty_Score'' \<in> set (columns df)"
      and u: "''Urgency_Messaging_Score'' \<in> set (columns df)"
  proof -
    from getitem_present [OF o] obtain c1 where c1: "getitem df ''OptOut_Difficulty_Score'' = Inr c1"
      by blast
    with assms(1) obtain os where os: "c1 = NumCol os"
      by (cases c1) (simp_all add: numeric_at_def)
    from getitem_present [OF u] obtain c2 where c2: "getitem df ''Urgency_Messaging_Score'' = Inr c2"
      by blast
    with assms(2) obtain us where us: "c2 = NumCol us"
      by (cases c2) (simp_all add: numeric_at_def)
    from scorer_result [OF c1 [unfolded os] c2 [unfolded us]] show ?thesis
      by blast
  qed
  show ?thesis
    using no_o no_u both by (metis Inl_Inr_False sum.inject(1) error.inject(1))
qed


theorem C9_missing_column_witness:
  "(\<exists>df'. calculate_autonomy_deficit example_table = Inr df') \<and>
   calculate_autonomy_deficit [(''OptOut_Difficulty_Score'', NumCol [2, 10])] =
     Inl (KeyError ''Urgency_Messaging_Score'') \<and>
   calculate_autonomy_deficit [(''Urgency_Messaging_Score'', NumCol [3, 10])] =
     Inl (KeyError ''OptOut_Difficulty_Score'')"
proof -
  have a: "numeric_at example_table ''OptOut_Difficulty_Score''"
    "numeric_at example_table ''Urgency_Messaging_Score''"
    by (simp_all add: numeric_at_def example_table_def)
  have b: "''OptOut_Difficulty_Score'' \<in> set (columns example_table) \<and>
      ''Urgency_Messaging_Score'' \<in> set (columns example_table)"
    by (simp add: example_table_def columns_def)
  have 1: "\<exists>df'. calculate_autonomy_deficit example_table = Inr df'"
    using C9_missing_column [OF a] b by blast
  have c: "numeric_at [(''OptOut_Difficulty_Score'', NumCol [2, 10])] ''OptOut_Difficulty_Score''"
    "numeric_at [(''OptOut_Difficulty_Score'', NumCol [2, 10])] ''Urgency_Messaging_Score''"
    by (simp_all add: numeric_at_def)
  have d: "''OptOut_Difficulty_Score'' \<in> set (columns [(''OptOut_Difficulty_Score'', NumCol [2, 10])]) \<and>
      ''Urgency_Messaging_Score'' \<notin> set (columns [(''OptOut_Difficulty_Score'', NumCol [2, 10])])"
    by (simp add: columns_def)
  have 2: "calculate_autonomy_deficit [(''OptOut_Difficulty_Score'', NumCol [2, 10])] =
     Inl (KeyError ''Urgency_Messaging_Score'')"
    using C9_missing_column [OF c] d by blast
  have e: "numeric_at [(''Urgency_Messaging_Score'', NumCol [3, 10])] ''OptOut_Difficulty_Score''"
    "numeric_at [(''Urgency_Messaging_Score'', NumCol [3, 10])] ''Urgency_Messaging_Score''"
    by (simp_all add: numeric_at_def)
  have f: "''OptOut_Difficulty_Score'' \<notin> set (columns [(''Urgency_Messaging_Score'', NumCol [3, 10])])"
    by (simp add: columns_def)
  have 3: "calculate_autonomy_deficit [(''Urgency_Messaging_Score'', NumCol [3, 10])] =
     Inl (KeyError ''OptOut_Difficulty_Score'')"
    using C9_missing_column [OF e] f by blast
  from 1 2 3 show ?thesis by blast
qed

section \<open>Facts about the Data Simulator\<close>

lemma select_rows_Cons:
  "select_rows (b # msk) (x # xs) = (if b then x # select_rows msk xs else select_rows msk xs)"
  by (simp add: select_rows_def)

lemma assign_rows_map:
  "length msk = length xs \<Longrightarrow>
   assign_rows msk xs (map f (select_rows msk xs)) =
     Inr (map2 (\<lambda>m x. if m then f x else x) msk xs)"
proof (induction msk xs rule: list_induct2)
  case Nil
  show ?case by (simp add: select_rows_def)
next
  case (Cons b msk x xs)
  then show ?case by (cases b) (simp_all add: select_rows_Cons)
qed

lemma assign_rows_ok:
  "length msk = length xs \<Longrightarrow> length vs = mask_sum msk \<Longrightarrow>
   \<exists>r. assign_rows msk xs vs = Inr r \<and> length r = length xs"
proof (induction msk xs arbitrary: vs rule: list_induct2)
  case Nil
  then show ?case by (simp add: mask_sum_def)
next
  case (Cons b msk x xs)
  show ?case
  proof (cases b)
    case True
    with Cons.prems obtain v vs' where vs: "vs = v # vs'" and l: "length vs' = mask_sum msk"
      by (cases vs) (simp_all add: mask_sum_def)
    from Cons.IH [OF l] obtain r where "assign_rows msk xs vs' = Inr r" "length r = length xs"
      by blast
    with True vs show ?thesis by simp
  next
    case False
    with Cons.prems have l: "length vs = mask_sum msk"
      by (simp add: mask_sum_def)
    from Cons.IH [OF l] obtain r where "assign_rows msk xs vs = Inr r" "length r = length xs"
      by blast
    with False show ?thesis by simp
  qed
qed

lemma loc_get_num:
  "getitem df k = Inr (NumCol xs) \<Longrightarrow> loc_get df msk k = Inr (NumCol (select_rows msk xs))"
  by (simp add: loc_get_def)

lemma loc_set_num:
  "getitem df k = Inr (NumCol xs) \<Longrightarrow> assign_rows msk xs vs = Inr r \<Longrightarrow>
   loc_set df msk k (NumCol vs) = Inr (setitem df k (NumCol r))"
  by (simp add: loc_set_def)

lemma inject_bias_result:
  assumes tg: "getitem df ''Test_Group'' = Inr (StrCol g)"
    and goal: "getitem df ''Platform_Goal_Achieved'' = Inr (NumCol p)"
    and comp: "getitem df ''User_Comprehension_Score'' = Inr (NumCol c)"
    and urg: "getitem df ''Urgency_Messaging_Score'' = Inr (NumCol u)"
    and lens: "length p = length g" "length c = length g" "length u = length g"
  shows "\<exists>p'. length p' = length g \<and>
      inject_bias r df =
        Inr (setitem (setitem (setitem df ''Platform_Goal_Achieved'' (NumCol p'))
              ''User_Comprehension_Score''
              (NumCol (map2 (\<lambda>m x. if m then x - 1 else x) (map (\<lambda>x. x = ''B'') g) c)))
              ''Urgency_Messaging_Score''
              (NumCol (map2 (\<lambda>m x. if m then clip 1 8 x + 2 else x) (map (\<lambda>x. x = ''B'') g) u)))"
proof -
  let ?m = "map (\<lambda>x. x = ''B'') g"
  let ?vs = "random_choice [0, 1] (mask_sum ?m) (goal_b_draws r)"
  let ?c' = "map2 (\<lambda>m x. if m then x - 1 else x) ?m c"
  let ?u' = "map2 (\<lambda>m x. if m then clip 1 8 x + 2 else x) ?m u"
  have "length ?m = length p" "length ?vs = mask_sum ?m"
    using lens by (simp_all add: random_choice_def)
  from assign_rows_ok [OF this] obtain p' where
    p': "assign_rows ?m p ?vs = Inr p'" and lp: "length p' = length g"
    using lens by auto
  let ?df1 = "setitem df ''Platform_Goal_Achieved'' (NumCol p')"
  have s1: "loc_set df ?m ''Platform_Goal_Achieved'' (NumCol ?vs) = Inr ?df1"
    using goal p' by (rule loc_set_num)
  have c1: "getitem ?df1 ''User_Comprehension_Score'' = Inr (NumCol c)"
    using comp by (simp add: getitem_setitem)
  have g2: "loc_get ?df1 ?m ''User_Comprehension_Score'' = Inr (NumCol (select_rows ?m c))"
    using c1 by (rule loc_get_num)
  have a2: "assign_rows ?m c (map (\<lambda>x. x - 1) (select_rows ?m c)) = Inr ?c'"
    using lens by (intro assign_rows_map) simp
  let ?df2 = "setitem ?df1 ''User_Comprehension_Score'' (NumCol ?c')"
  have s2: "loc_set ?df1 ?m ''User_Comprehension_Score''
      (NumCol (map (\<lambda>x. x - 1) (select_rows ?m c))) = Inr ?df2"
    using c1 a2 by (rule loc_set_num)
  have u2: "getitem ?df2 ''Urgency_Messaging_Score'' = Inr (NumCol u)"
    using urg by (simp add: getitem_setitem)
  have g3: "loc_get ?df2 ?m ''Urgency_Messaging_Score'' = Inr (NumCol (select_rows ?m u))"
    using u2 by (rule loc_get_num)
  have a3: "assign_rows ?m u (map (\<lambda>x. clip 1 8 x + 2) (select_rows ?m u)) = Inr ?u'"
    using lens by (intro assign_rows_map) simp
  have s3: "loc_set ?df2 ?m ''Urgency_Messaging_Score''
      (NumCol (map (\<lambda>x. clip 1 8 x + 2) (select_rows ?m u))) =
      Inr (setitem ?df2 ''Urgency_Messaging_Score'' (NumCol ?u'))"
    using u2 a3 by (rule loc_set_num)
  have "inject_bias r df = Inr (setitem ?df2 ''Urgency_Messaging_Score'' (NumCol ?u'))"
    by (simp add: inject_bias_def Let_def tg s1 g2 s2 g3 s3 o_def)
  with lp show ?thesis by blast
qed

lemma clean_up_result:
  assumes "getitem df ''User_Comprehension_Score'' = Inr (NumCol c)"
    and "getitem df ''Urgency_Messaging_Score'' = Inr (NumCol u)"
  shows "clean_up df =
      Inr (setitem (setitem df ''User_Comprehension_Score''
              (NumCol (map (round_to 1) (map (clip 1 10) c))))
            ''Urgency_Messaging_Score'' (NumCol (map (clip 1 10) u)))"
  using assms by (simp add: clean_up_def Let_def getitem_setitem)

lemma length_random_choice: "length (random_choice a n d) = n"
  by (simp add: random_choice_def)

lemma length_random_normal: "length (random_normal loc scale n d) = n"
  by (simp add: random_normal_def)

lemma length_random_randint: "length (random_randint low high n d) = n"
  by (simp add: random_randint_def)

lemma random_choice_subset: "a \<noteq> [] \<Longrightarrow> set (random_choice a n d) \<subseteq> set a"
  by (auto simp: random_choice_def)

lemma random_randint_range:
  assumes "low < high" and "k \<in> set (random_randint low high n d)"
  shows "low \<le> k \<and> k < high"
proof -
  from assms(2) obtain i where k: "k = low + int (d i) mod (high - low)"
    by (auto simp: random_randint_def)
  have "0 < high - low"
    using assms(1) by simp
  then have "0 \<le> int (d i) mod (high - low)" "int (d i) mod (high - low) < high - low"
    by (rule pos_mod_sign, rule pos_mod_bound)
  with k show ?thesis by simp
qed

lemma clip_bounds: "lower \<le> upper \<Longrightarrow> lower \<le> clip lower upper x \<and> clip lower upper x \<le> upper"
  by (simp add: clip_def)

lemma clip_id: "lower \<le> x \<Longrightarrow> x \<le> upper \<Longrightarrow> clip lower upper x = x"
  by (simp add: clip_def)

lemma rint_ge: "of_int k \<le> x \<Longrightarrow> k \<le> rint x"
  unfolding rint_def Let_def by (auto simp: le_floor_iff) linarith+

lemma rint_le: "x \<le> of_int k \<Longrightarrow> rint x \<le> k"
  unfolding rint_def Let_def by (auto simp: floor_le_iff)

lemma round_to_1_bounds:
  assumes "1 \<le> x" "x \<le> 10"
  shows "1 \<le> round_to 1 x \<and> round_to 1 x \<le> 10"
proof -
  have "of_int 10 \<le> x * 10" "x * 10 \<le> of_int 100"
    using assms by simp_all
  then have "10 \<le> rint (x * 10)" "rint (x * 10) \<le> 100"
    by (simp_all add: rint_ge rint_le)
  then have "(10::real) \<le> of_int (rint (x * 10))" "of_int (rint (x * 10)) \<le> (100::real)"
    by linarith+
  then show ?thesis
    by (simp add: round_to_def)
qed

lemma inject_bias_df_ab:
  fixes r :: rng
  defines "g \<equiv> random_choice [''A'', ''B''] n_users (group_draws r)"
    and "c \<equiv> random_normal 7 1.5 n_users (comprehension_draws r)"
    and "u \<equiv> map real_of_int (random_randint 1 10 n_users (urgency_draws r))"
  shows "\<exists>p'. length p' = n_users \<and>
      inject_bias r (df_ab r) =
        Inr [(''UserID'', NumCol (map real [1000..<1000 + n_users])),
             (''Test_Group'', StrCol g),
             (''Platform_Goal_Achieved'', NumCol p'),
             (''User_Comprehension_Score'',
                NumCol (map2 (\<lambda>m x. if m then x - 1 else x) (map (\<lambda>x. x = ''B'') g) c)),
             (''OptOut_Difficulty_Score'',
                NumCol (map real_of_int (random_randint 1 10 n_users (optout_draws r)))),
             (''Urgency_Messaging_Score'',
                NumCol (map2 (\<lambda>m x. if m then clip 1 8 x + 2 else x) (map (\<lambda>x. x = ''B'') g) u))]"
proof -
  have tg: "getitem (df_ab r) ''Test_Group'' = Inr (StrCol g)"
    by (simp add: df_ab_def g_def)
  have goal: "getitem (df_ab r) ''Platform_Goal_Achieved'' =
      Inr (NumCol (random_choice [0, 1] n_users (goal_draws r)))"
    by (simp add: df_ab_def)
  have comp: "getitem (df_ab r) ''User_Comprehension_Score'' = Inr (NumCol c)"
    by (simp add: df_ab_def c_def)
  have urg: "getitem (df_ab r) ''Urgency_Messaging_Score'' = Inr (NumCol u)"
    by (simp add: df_ab_def u_def)
  have lg: "length g = n_users"
    by (simp add: g_def length_random_choice)
  have lens: "length (random_choice [0, 1 :: real] n_users (goal_draws r)) = length g"
    "length c = length g" "length u = length g"
    by (simp_all add: lg c_def u_def length_random_choice length_random_normal
        length_random_randint)
  from inject_bias_result [OF tg goal comp urg lens, of r] obtain p' where
    lp: "length p' = length g" and
    ib: "inject_bias r (df_ab r) =
        Inr (setitem (setitem (setitem (df_ab r) ''Platform_Goal_Achieved'' (NumCol p'))
              ''User_Comprehension_Score''
              (NumCol (map2 (\<lambda>m x. if m then x - 1 else x) (map (\<lambda>x. x = ''B'') g) c)))
              ''Urgency_Messaging_Score''
              (NumCol (map2 (\<lambda>m x. if m then clip 1 8 x + 2 else x) (map (\<lambda>x. x = ''B'') g) u)))"
    by blast
  have "setitem (setitem (setitem (df_ab r) ''Platform_Goal_Achieved'' (NumCol p'))
              ''User_Comprehension_Score''
              (NumCol (map2 (\<lambda>m x. if m then x - 1 else x) (map (\<lambda>x. x = ''B'') g) c)))
              ''Urgency_Messaging_Score''
              (NumCol (map2 (\<lambda>m x. if m then clip 1 8 x + 2 else x) (map (\<lambda>x. x = ''B'') g) u)) =
        [(''UserID'', NumCol (map real [1000..<1000 + n_users])),
             (''Test_Group'', StrCol g),
             (''Platform_Goal_Achieved'', NumCol p'),
             (''User_Comprehension_Score'',
                NumCol (map2 (\<lambda>m x. if m then x - 1 else x) (map (\<lambda>x. x = ''B'') g) c)),
             (''OptOut_Difficulty_Score'',
                NumCol (map real_of_int (random_randint 1 10 n_users (optout_draws r)))),
             (''Urgency_Messaging_Score'',
                NumCol (map2 (\<lambda>m x. if m then clip 1 8 x + 2 else x) (map (\<lambda>x. x = ''B'') g) u))]"
    by (simp add: df_ab_def g_def)
  with ib lp lg show ?thesis by auto
qed

lemma simulate_data_result:
  fixes r :: rng
  defines "g \<equiv> random_choice [''A'', ''B''] n_users (group_draws r)"
    and "c \<equiv> random_normal 7 1.5 n_users (comprehension_draws r)"
    and "u \<equiv> map real_of_int (random_randint 1 10 n_users (urgency_draws r))"
  shows "\<exists>p'. length p' = n_users \<and>
      simulate_data r =
        Inr [(''UserID'', NumCol (map real [1000..<1000 + n_users])),
             (''Test_Group'', StrCol g),
             (''Platform_Goal_Achieved'', NumCol p'),
             (''User_Comprehension_Score'',
                NumCol (map (round_to 1) (map (clip 1 10)
                  (map2 (\<lambda>m x. if m then x - 1 else x) (map (\<lambda>x. x = ''B'') g) c)))),
             (''OptOut_Difficulty_Score'',
                NumCol (map real_of_int (random_randint 1 10 n_users (optout_draws r)))),
             (''Urgency_Messaging_Score'',
                NumCol (map (clip 1 10)
                  (map2 (\<lambda>m x. if m then clip 1 8 x + 2 else x) (map (\<lambda>x. x = ''B'') g) u)))]"
proof -
  from inject_bias_df_ab [of r] obtain p' where lp: "length p' = n_users"
    and ib: "inject_bias r (df_ab r) =
        Inr [(''UserID'', NumCol (map real [1000..<1000 + n_users])),
             (''Test_Group'', StrCol g),
             (''Platform_Goal_Achieved'', NumCol p'),
             (''User_Comprehension_Score'',
                NumCol (map2 (\<lambda>m x. if m then x - 1 else x) (map (\<lambda>x. x = ''B'') g) c)),
             (''OptOut_Difficulty_Score'',
                NumCol (map real_of_int (random_randint 1 10 n_users (optout_draws r)))),
             (''Urgency_Messaging_Score'',
                NumCol (map2 (\<lambda>m x. if m then clip 1 8 x + 2 else x) (map (\<lambda>x. x = ''B'') g) u))]"
    unfolding g_def c_def u_def by blast
  have "simulate_data r =
        Inr [(''UserID'', NumCol (map real [1000..<1000 + n_users])),
             (''Test_Group'', StrCol g),
             (''Platform_Goal_Achieved'', NumCol p'),
             (''User_Comprehension_Score'',
                NumCol (map (round_to 1) (map (clip 1 10)
                  (map2 (\<lambda>m x. if m then x - 1 else x) (map (\<lambda>x. x = ''B'') g) c)))),
             (''OptOut_Difficulty_Score'',
                NumCol (map real_of_int (random_randint 1 10 n_users (optout_draws r)))),
             (''Urgency_Messaging_Score'',
                NumCol (map (clip 1 10)
                  (map2 (\<lambda>m x. if m then clip 1 8 x + 2 else x) (map (\<lambda>x. x = ''B'') g) u)))]"
    unfolding simulate_data_def ib
    by (simp add: clean_up_def Let_def)
  with lp show ?thesis by blast
qed

lemma randint_1_10_nth:
  assumes "i < n"
  shows "1 \<le> random_randint 1 10 n d ! i \<and> random_randint 1 10 n d ! i \<le> 9"
proof -
  have "random_randint 1 10 n d ! i \<in> set (random_randint 1 10 n d)"
    using assms by (simp add: length_random_randint)
  from random_randint_range [OF _ this] show ?thesis by simp
qed

lemma urgency_after_bias:
  assumes g_def: "g = random_choice [''A'', ''B''] n_users (group_draws r)"
    and u0_def: "u0 = map real_of_int (random_randint 1 10 n_users (urgency_draws r))"
    and u1_def: "u1 = map2 (\<lambda>m x. if m then clip 1 8 x + 2 else x) (map (\<lambda>x. x = ''B'') g) u0"
    and i: "i < n_users"
  shows "(\<exists>k::int. u0 ! i = of_int k \<and> 1 \<le> k \<and> k \<le> 9) \<and>
         (g ! i = ''B'' \<longrightarrow> u1 ! i = clip 1 8 (u0 ! i) + 2 \<and> 3 \<le> u1 ! i \<and> u1 ! i \<le> 10) \<and>
         (g ! i \<noteq> ''B'' \<longrightarrow> u1 ! i = u0 ! i \<and> u1 ! i \<le> 9) \<and>
         clip 1 10 (u1 ! i) = u1 ! i"
proof -
  have lg: "length g = n_users" and lu: "length u0 = n_users"
    by (simp_all add: g_def u0_def length_random_choice length_random_randint)
  let ?k = "random_randint 1 10 n_users (urgency_draws r) ! i"
  have k: "1 \<le> ?k \<and> ?k \<le> 9"
    using i by (rule randint_1_10_nth)
  have u0i: "u0 ! i = of_int ?k"
    using i by (simp add: u0_def length_random_randint)
  have u1i: "u1 ! i = (if g ! i = ''B'' then clip 1 8 (u0 ! i) + 2 else u0 ! i)"
    using i lg lu by (simp add: u1_def)
  have r0: "1 \<le> u0 ! i \<and> u0 ! i \<le> 9"
    using k unfolding u0i by simp
  have c: "1 \<le> clip 1 8 (u0 ! i) \<and> clip 1 8 (u0 ! i) \<le> 8"
    by (rule clip_bounds) simp
  have b: "1 \<le> u1 ! i \<and> u1 ! i \<le> 10"
    using r0 c unfolding u1i by auto
  have "clip 1 10 (u1 ! i) = u1 ! i"
    using b by (simp add: clip_id)
  with k u0i u1i r0 c show ?thesis by auto
qed

section \<open>The claims about the Data Simulator\<close>

text \<open>
  Claim C3, as the code has it. Urgency_Messaging_Score is first drawn as an integer
  from 1 to 9. In the bias step a row of group B gets its value clamped to the range
  from 1 to 8 and then raised by 2.0, which gives a value from 3 to 10; a row of
  another group keeps its value, which is therefore at most 9. The final clamp of the
  whole column to the range from 1 to 10 changes no value.
\<close>

theorem C3_urgency_steps:
  "\<exists>df1 df2 g u0 u1 u2.
     inject_bias r (df_ab r) = Inr df1 \<and> clean_up df1 = Inr df2 \<and> simulate_data r = Inr df2 \<and>
     getitem (df_ab r) ''Test_Group'' = Inr (StrCol g) \<and>
     getitem df1 ''Test_Group'' = Inr (StrCol g) \<and>
     getitem df2 ''Test_Group'' = Inr (StrCol g) \<and>
     getitem (df_ab r) ''Urgency_Messaging_Score'' = Inr (NumCol u0) \<and>
     getitem df1 ''Urgency_Messaging_Score'' = Inr (NumCol u1) \<and>
     getitem df2 ''Urgency_Messaging_Score'' = Inr (NumCol u2) \<and>
     length g = 1000 \<and> length u0 = 1000 \<and> length u1 = 1000 \<and> length u2 = 1000 \<and>
     (\<forall>i < 1000.
        (\<exists>k::int. u0 ! i = of_int k \<and> 1 \<le> k \<and> k \<le> 9) \<and>
        (g ! i = ''B'' \<longrightarrow> u1 ! i = clip 1 8 (u0 ! i) + 2 \<and> 3 \<le> u1 ! i \<and> u1 ! i \<le> 10) \<and>
        (g ! i \<noteq> ''B'' \<longrightarrow> u1 ! i = u0 ! i \<and> u1 ! i \<le> 9) \<and>
        u2 ! i = clip 1 10 (u1 ! i) \<and> u2 ! i = u1 ! i)"
proof -
  define g where "g = random_choice [''A'', ''B''] n_users (group_draws r)"
  define u0 where "u0 = map real_of_int (random_randint 1 10 n_users (urgency_draws r))"
  define u1 where "u1 = map2 (\<lambda>m x. if m then clip 1 8 x + 2 else x) (map (\<lambda>x. x = ''B'') g) u0"
  define u2 where "u2 = map (clip 1 10) u1"
  have lg: "length g = 1000" and l0: "length u0 = 1000"
    by (simp_all add: g_def u0_def length_random_choice length_random_randint n_users_def)
  have l1: "length u1 = 1000"
    by (simp add: u1_def lg l0)
  have l2: "length u2 = 1000"
    by (simp add: u2_def l1)
  from inject_bias_df_ab [of r] obtain df1 where ib: "inject_bias r (df_ab r) = Inr df1"
    and t1: "getitem df1 ''Test_Group'' = Inr (StrCol g)"
    and g1: "getitem df1 ''Urgency_Messaging_Score'' = Inr (NumCol u1)"
    and c1: "\<exists>c. getitem df1 ''User_Comprehension_Score'' = Inr (NumCol c)"
    unfolding g_def u0_def u1_def by auto
  from c1 obtain c where c: "getitem df1 ''User_Comprehension_Score'' = Inr (NumCol c)"
    by blast
  define df2 where "df2 = setitem (setitem df1 ''User_Comprehension_Score''
              (NumCol (map (round_to 1) (map (clip 1 10) c))))
            ''Urgency_Messaging_Score'' (NumCol u2)"
  have cu: "clean_up df1 = Inr df2"
    unfolding df2_def u2_def using c g1 by (rule clean_up_result)
  have sd: "simulate_data r = Inr df2"
    by (simp add: simulate_data_def ib cu)
  have t0: "getitem (df_ab r) ''Test_Group'' = Inr (StrCol g)"
    by (simp add: df_ab_def g_def)
  have t2: "getitem df2 ''Test_Group'' = Inr (StrCol g)"
    using t1 by (simp add: df2_def getitem_setitem)
  have g0: "getitem (df_ab r) ''Urgency_Messaging_Score'' = Inr (NumCol u0)"
    by (simp add: df_ab_def u0_def)
  have g2: "getitem df2 ''Urgency_Messaging_Score'' = Inr (NumCol u2)"
    by (simp add: df2_def getitem_setitem)
  have rows: "\<forall>i < 1000.
        (\<exists>k::int. u0 ! i = of_int k \<and> 1 \<le> k \<and> k \<le> 9) \<and>
        (g ! i = ''B'' \<longrightarrow> u1 ! i = clip 1 8 (u0 ! i) + 2 \<and> 3 \<le> u1 ! i \<and> u1 ! i \<le> 10) \<and>
        (g ! i \<noteq> ''B'' \<longrightarrow> u1 ! i = u0 ! i \<and> u1 ! i \<le> 9) \<and>
        u2 ! i = clip 1 10 (u1 ! i) \<and> u2 ! i = u1 ! i"
  proof (intro allI impI)
    fix i :: nat
    assume i: "i < 1000"
    then have "i < n_users" by (simp add: n_users_def)
    from urgency_after_bias [OF g_def u0_def u1_def this]
    have a: "(\<exists>k::int. u0 ! i = of_int k \<and> 1 \<le> k \<and> k \<le> 9) \<and>
         (g ! i = ''B'' \<longrightarrow> u1 ! i = clip 1 8 (u0 ! i) + 2 \<and> 3 \<le> u1 ! i \<and> u1 ! i \<le> 10) \<and>
         (g ! i \<noteq> ''B'' \<longrightarrow> u1 ! i = u0 ! i \<and> u1 ! i \<le> 9) \<and>
         clip 1 10 (u1 ! i) = u1 ! i" .
    have b: "u2 ! i = clip 1 10 (u1 ! i)"
      using i l1 by (simp add: u2_def)
    have b': "u2 ! i = u1 ! i"
      using a b by (simp only:)
    from a b b' show "(\<exists>k::int. u0 ! i = of_int k \<and> 1 \<le> k \<and> k \<le> 9) \<and>
        (g ! i = ''B'' \<longrightarrow> u1 ! i = clip 1 8 (u0 ! i) + 2 \<and> 3 \<le> u1 ! i \<and> u1 ! i \<le> 10) \<and>
        (g ! i \<noteq> ''B'' \<longrightarrow> u1 ! i = u0 ! i \<and> u1 ! i \<le> 9) \<and>
        u2 ! i = clip 1 10 (u1 ! i) \<and> u2 ! i = u1 ! i"
      by blast
  qed
  from ib cu sd t0 t1 t2 g0 g1 g2 lg l0 l1 l2 rows show ?thesis by blast
qed

theorem C3_urgency_steps_witness:
  "\<exists>df2 u2. simulate_data example_rng = Inr df2 \<and>
     getitem df2 ''Urgency_Messaging_Score'' = Inr (NumCol u2) \<and>
     length u2 = 1000 \<and> u2 ! 0 = 8 \<and> u2 ! 1 = 10"
proof -
  from C3_urgency_steps [of example_rng] obtain df1 df2 g u0 u1 u2 where
    sd: "simulate_data example_rng = Inr df2"
    and t0: "getitem (df_ab example_rng) ''Test_Group'' = Inr (StrCol g)"
    and g0: "getitem (df_ab example_rng) ''Urgency_Messaging_Score'' = Inr (NumCol u0)"
    and g2: "getitem df2 ''Urgency_Messaging_Score'' = Inr (NumCol u2)"
    and l2: "length u2 = 1000"
    and rows: "\<forall>i < 1000.
        (\<exists>k::int. u0 ! i = of_int k \<and> 1 \<le> k \<and> k \<le> 9) \<and>
        (g ! i = ''B'' \<longrightarrow> u1 ! i = clip 1 8 (u0 ! i) + 2 \<and> 3 \<le> u1 ! i \<and> u1 ! i \<le> 10) \<and>
        (g ! i \<noteq> ''B'' \<longrightarrow> u1 ! i = u0 ! i \<and> u1 ! i \<le> 9) \<and>
        u2 ! i = clip 1 10 (u1 ! i) \<and> u2 ! i = u1 ! i"
    by (elim exE conjE)
  have g: "g = random_choice [''A'', ''B''] n_users (group_draws example_rng)"
    using t0 by (simp add: df_ab_def)
  have u0: "u0 = map real_of_int (random_randint 1 10 n_users (urgency_draws example_rng))"
    using g0 by (simp add: df_ab_def)
  have ga: "g ! 0 = ''A''" and gb: "g ! 1 = ''B''"
    by (simp_all add: g random_choice_def n_users_def example_rng_def)
  have ua: "u0 ! 0 = 8" and ub: "u0 ! 1 = 9"
    by (simp_all add: u0 random_randint_def n_users_def example_rng_def)
  have "u2 ! 0 = 8"
    using rows [rule_format, of 0] ga ua by (simp add: clip_def)
  moreover have "u2 ! 1 = 10"
    using rows [rule_format, of 1] gb ub by (simp add: clip_def)
  ultimately show ?thesis using sd g2 l2 by blast
qed

text \<open>
  The claim as it was stated has the value of a row outside group B possibly above 10
  before the final clamp. No run of the simulator has such a row.
\<close>

theorem C3_non_b_above_10_counterexample:
  "\<not> (\<exists>r df1 g u1 i.
        inject_bias r (df_ab r) = Inr df1 \<and>
        getitem df1 ''Test_Group'' = Inr (StrCol g) \<and>
        getitem df1 ''Urgency_Messaging_Score'' = Inr (NumCol u1) \<and>
        i < length u1 \<and> g ! i \<noteq> ''B'' \<and> 10 < u1 ! i)"
proof
  assume "\<exists>r df1 g u1 i.
        inject_bias r (df_ab r) = Inr df1 \<and>
        getitem df1 ''Test_Group'' = Inr (StrCol g) \<and>
        getitem df1 ''Urgency_Messaging_Score'' = Inr (NumCol u1) \<and>
        i < length u1 \<and> g ! i \<noteq> ''B'' \<and> 10 < u1 ! i"
  then obtain r df1 g u1 i where ib: "inject_bias r (df_ab r) = Inr df1"
    and t: "getitem df1 ''Test_Group'' = Inr (StrCol g)"
    and u: "getitem df1 ''Urgency_Messaging_Score'' = Inr (NumCol u1)"
    and i: "i < length u1" and nb: "g ! i \<noteq> ''B''" and big: "10 < u1 ! i"
    by blast
  define u0 where "u0 = map real_of_int (random_randint 1 10 n_users (urgency_draws r))"
  from inject_bias_df_ab [of r] ib t u
  have g: "g = random_choice [''A'', ''B''] n_users (group_draws r)"
    and u1: "u1 = map2 (\<lambda>m x. if m then clip 1 8 x + 2 else x) (map (\<lambda>x. x = ''B'') g) u0"
    unfolding u0_def by auto
  have "length u1 = n_users"
    by (simp add: u1 g u0_def length_random_choice length_random_randint)
  with i have "i < n_users" by simp
  from urgency_after_bias [OF g u0_def u1 this] nb have "u1 ! i \<le> 9"
    by blast
  with big show False by simp
qed

text \<open>
  Claim C4. In the table that the simulator returns, every User_Comprehension_Score
  is the value after the bias step clamped to the range from 1 to 10 and then rounded
  to one decimal, and lies between 1 and 10; every Urgency_Messaging_Score lies
  between 1 and 10.
\<close>

theorem C4_score_ranges:
  "\<exists>df1 df c1 comp urg.
     inject_bias r (df_ab r) = Inr df1 \<and>
     getitem df1 ''User_Comprehension_Score'' = Inr (NumCol c1) \<and>
     simulate_data r = Inr df \<and>
     getitem df ''User_Comprehension_Score'' = Inr (NumCol comp) \<and>
     getitem df ''Urgency_Messaging_Score'' = Inr (NumCol urg) \<and>
     length comp = 1000 \<and> length urg = 1000 \<and>
     comp = map (\<lambda>x. round_to 1 (clip 1 10 x)) c1 \<and>
     (\<forall>x \<in> set comp. 1 \<le> x \<and> x \<le> 10 \<and> (\<exists>k::int. x = of_int k / 10)) \<and>
     (\<forall>x \<in> set urg. 1 \<le> x \<and> x \<le> 10)"
proof -
  define g where "g = random_choice [''A'', ''B''] n_users (group_draws r)"
  define c0 where "c0 = random_normal 7 1.5 n_users (comprehension_draws r)"
  define u0 where "u0 = map real_of_int (random_randint 1 10 n_users (urgency_draws r))"
  define c1 where "c1 = map2 (\<lambda>m x. if m then x - 1 else x) (map (\<lambda>x. x = ''B'') g) c0"
  define u1 where "u1 = map2 (\<lambda>m x. if m then clip 1 8 x + 2 else x) (map (\<lambda>x. x = ''B'') g) u0"
  define comp where "comp = map (\<lambda>x. round_to 1 (clip 1 10 x)) c1"
  define urg where "urg = map (clip 1 10) u1"
  have lens: "length g = 1000" "length c0 = 1000" "length u0 = 1000"
    by (simp_all add: g_def c0_def u0_def length_random_choice length_random_normal
        length_random_randint n_users_def)
  have lc: "length comp = 1000" and lu: "length urg = 1000"
    by (simp_all add: comp_def urg_def c1_def u1_def lens)
  from inject_bias_df_ab [of r] obtain df1 where ib: "inject_bias r (df_ab r) = Inr df1"
    and gc1: "getitem df1 ''User_Comprehension_Score'' = Inr (NumCol c1)"
    unfolding g_def c0_def c1_def by auto
  from simulate_data_result [of r] obtain df where sd: "simulate_data r = Inr df"
    and gc: "getitem df ''User_Comprehension_Score'' = Inr (NumCol comp)"
    and gu: "getitem df ''Urgency_Messaging_Score'' = Inr (NumCol urg)"
    unfolding g_def c0_def u0_def c1_def u1_def comp_def urg_def by auto
  have bc: "\<forall>x \<in> set comp. 1 \<le> x \<and> x \<le> 10 \<and> (\<exists>k::int. x = of_int k / 10)"
  proof
    fix x assume "x \<in> set comp"
    then obtain y where x: "x = round_to 1 (clip 1 10 y)"
      by (auto simp: comp_def)
    have "1 \<le> clip 1 10 y \<and> clip 1 10 y \<le> 10"
      by (rule clip_bounds) simp
    then have "1 \<le> x \<and> x \<le> 10"
      unfolding x by (intro round_to_1_bounds) simp_all
    moreover have "x = of_int (rint (clip 1 10 y * 10)) / 10"
      by (simp add: x round_to_def)
    ultimately show "1 \<le> x \<and> x \<le> 10 \<and> (\<exists>k::int. x = of_int k / 10)"
      by blast
  qed
  have bu: "\<forall>x \<in> set urg. 1 \<le> x \<and> x \<le> 10"
  proof
    fix x assume "x \<in> set urg"
    then obtain y where x: "x = clip 1 10 y"
      by (auto simp: urg_def)
    show "1 \<le> x \<and> x \<le> 10"
      unfolding x by (rule clip_bounds) simp
  qed
  have "comp = map (\<lambda>x. round_to 1 (clip 1 10 x)) c1"
    by (simp add: comp_def)
  with ib gc1 sd gc gu lc lu bc bu show ?thesis by blast
qed

theorem C4_score_ranges_witness:
  "\<exists>df comp urg.
     simulate_data example_rng = Inr df \<and>
     getitem df ''User_Comprehension_Score'' = Inr (NumCol comp) \<and>
     getitem df ''Urgency_Messaging_Score'' = Inr (NumCol urg) \<and>
     1 \<le> comp ! 0 \<and> comp ! 0 \<le> 10 \<and> 1 \<le> urg ! 999 \<and> urg ! 999 \<le> 10"
proof -
  from C4_score_ranges [of example_rng] obtain df comp urg where
    sd: "simulate_data example_rng = Inr df"
    and gc: "getitem df ''User_Comprehension_Score'' = Inr (NumCol comp)"
    and gu: "getitem df ''Urgency_Messaging_Score'' = Inr (NumCol urg)"
    and lc: "length comp = 1000" and lu: "length urg = 1000"
    and bc: "\<forall>x \<in> set comp. 1 \<le> x \<and> x \<le> 10 \<and> (\<exists>k::int. x = of_int k / 10)"
    and bu: "\<forall>x \<in> set urg. 1 \<le> x \<and> x \<le> 10"
    by (elim exE conjE)
  have "comp ! 0 \<in> set comp" "urg ! 999 \<in> set urg"
    using lc lu by simp_all
  with bc bu have "1 \<le> comp ! 0 \<and> comp ! 0 \<le> 10" "1 \<le> urg ! 999 \<and> urg ! 999 \<le> 10"
    by blast+
  with sd gc gu show ?thesis by blast
qed

text \<open>
  Claim C5. For every random source the simulator returns a table; it has the six
  columns of an observation record, each of 1000 rows; every Test_Group is A or B;
  the UserID of row \<open>i\<close> is \<open>1000 + i\<close>, so the identifiers are distinct and contiguous
  from 1000.
\<close>

theorem C5_simulated_table:
  "\<exists>df g ids.
     simulate_data r = Inr df \<and>
     columns df = [''UserID'', ''Test_Group'', ''Platform_Goal_Achieved'',
       ''User_Comprehension_Score'', ''OptOut_Difficulty_Score'', ''Urgency_Messaging_Score''] \<and>
     list_all (\<lambda>p. col_length (snd p) = 1000) df \<and>
     getitem df ''Test_Group'' = Inr (StrCol g) \<and> length g = 1000 \<and>
     (\<forall>x \<in> set g. x = ''A'' \<or> x = ''B'') \<and>
     getitem df ''UserID'' = Inr (NumCol ids) \<and> length ids = 1000 \<and>
     distinct ids \<and> (\<forall>i < 1000. ids ! i = 1000 + real i)"
proof -
  define g where "g = random_choice [''A'', ''B''] n_users (group_draws r)"
  define ids where "ids = map real [1000..<1000 + n_users]"
  have "length g = n_users" and "length ids = n_users"
    by (simp_all add: g_def ids_def length_random_choice)
  then have lg: "length g = 1000" and li: "length ids = 1000"
    by (simp_all only: n_users_def)
  from simulate_data_result [of r] obtain df where sd: "simulate_data r = Inr df"
    and cols: "columns df = [''UserID'', ''Test_Group'', ''Platform_Goal_Achieved'',
       ''User_Comprehension_Score'', ''OptOut_Difficulty_Score'', ''Urgency_Messaging_Score'']"
    and rows': "list_all (\<lambda>p. col_length (snd p) = n_users) df"
    and gt: "getitem df ''Test_Group'' = Inr (StrCol g)"
    and gi: "getitem df ''UserID'' = Inr (NumCol ids)"
    unfolding g_def ids_def
    by (auto simp: columns_def length_random_choice length_random_normal
        length_random_randint)
  from rows' have rows: "list_all (\<lambda>p. col_length (snd p) = 1000) df"
    by (simp only: n_users_def)
  have "set g \<subseteq> set [''A'', ''B'']"
    unfolding g_def by (rule random_choice_subset) simp
  then have ab: "\<forall>x \<in> set g. x = ''A'' \<or> x = ''B''"
    by auto
  have d: "distinct ids"
    unfolding ids_def by (simp add: distinct_map inj_on_def)
  have "\<forall>i < n_users. ids ! i = 1000 + real i"
    by (simp add: ids_def)
  then have c: "\<forall>i < 1000. ids ! i = 1000 + real i"
    by (simp only: n_users_def)
  from sd cols rows gt lg ab gi li d c show ?thesis by blast
qed

theorem C5_simulated_table_witness:
  "\<exists>df g ids.
     simulate_data example_rng = Inr df \<and>
     getitem df ''Test_Group'' = Inr (StrCol g) \<and> (g ! 0 = ''A'' \<or> g ! 0 = ''B'') \<and>
     getitem df ''UserID'' = Inr (NumCol ids) \<and> ids ! 0 = 1000 \<and> ids ! 999 = 1999"
proof -
  from C5_simulated_table [of example_rng] obtain df g ids where
    sd: "simulate_data example_rng = Inr df"
    and gt: "getitem df ''Test_Group'' = Inr (StrCol g)" and lg: "length g = 1000"
    and ab: "\<forall>x \<in> set g. x = ''A'' \<or> x = ''B''"
    and gi: "getitem df ''UserID'' = Inr (NumCol ids)"
    and c: "\<forall>i < 1000. ids ! i = 1000 + real i"
    by (elim exE conjE)
  have "g ! 0 \<in> set g"
    using lg by simp
  with ab have 1: "g ! 0 = ''A'' \<or> g ! 0 = ''B''"
    by blast
  have 2: "ids ! 0 = 1000" "ids ! 999 = 1999"
    using c [rule_format, of 0] c [rule_format, of 999] by simp_all
  from sd gt 1 gi 2 show ?thesis by blast
qed


text \<open>
  Claim C6. In every table produced by the simulator and then scored, every
  NAD_Score is at most 8.6 (0.4 times at most 9 plus 0.5 times at most 10), and so
  every NAD_Score_Normalized is below 1.0; a normalized score of 1.0 or more needs a
  table that the simulator does not produce.
\<close>

theorem C6_simulated_nad_bound:
  "\<exists>df df' nad nadn.
     simulate_data r = Inr df \<and> calculate_autonomy_deficit df = Inr df' \<and>
     getitem df' ''NAD_Score'' = Inr (NumCol nad) \<and>
     getitem df' ''NAD_Score_Normalized'' = Inr (NumCol nadn) \<and>
     length nad = 1000 \<and> length nadn = 1000 \<and>
     (\<forall>x \<in> set nad. x \<le> 8.6) \<and> (\<forall>y \<in> set nadn. y < 1.0)"
proof -
  define os where "os = map real_of_int (random_randint 1 10 n_users (optout_draws r))"
  define g where "g = random_choice [''A'', ''B''] n_users (group_draws r)"
  define u0 where "u0 = map real_of_int (random_randint 1 10 n_users (urgency_draws r))"
  define us where "us = map (clip 1 10)
      (map2 (\<lambda>m x. if m then clip 1 8 x + 2 else x) (map (\<lambda>x. x = ''B'') g) u0)"
  define nad where "nad = map2 (\<lambda>x y. x + y) (map (\<lambda>x. x * 0.4) os) (map (\<lambda>x. x * 0.5) us)"
  define nadn where "nadn = map (\<lambda>x. x / 9) nad"
  have "length os = n_users" "length us = n_users"
    by (simp_all add: os_def us_def g_def u0_def length_random_choice length_random_randint)
  then have lo: "length os = 1000" and lu: "length us = 1000"
    by (simp_all only: n_users_def)
  have ln: "length nad = 1000" "length nadn = 1000"
    by (simp_all add: nad_def nadn_def lo lu)
  from simulate_data_result [of r] obtain df where sd: "simulate_data r = Inr df"
    and go: "getitem df ''OptOut_Difficulty_Score'' = Inr (NumCol os)"
    and gu: "getitem df ''Urgency_Messaging_Score'' = Inr (NumCol us)"
    unfolding os_def us_def g_def u0_def by auto
  define df' where "df' = setitem (setitem df ''NAD_Score'' (NumCol nad))
      ''NAD_Score_Normalized'' (NumCol nadn)"
  have run: "calculate_autonomy_deficit df = Inr df'"
    unfolding df'_def nadn_def nad_def using go gu by (rule scorer_result)
  have g1: "getitem df' ''NAD_Score'' = Inr (NumCol nad)"
    by (simp add: df'_def getitem_setitem)
  have g2: "getitem df' ''NAD_Score_Normalized'' = Inr (NumCol nadn)"
    by (simp add: df'_def getitem_setitem)
  have bo: "\<forall>x \<in> set os. x \<le> 9"
  proof
    fix x assume "x \<in> set os"
    then obtain k where "k \<in> set (random_randint 1 10 n_users (optout_draws r))"
      and x: "x = real_of_int k"
      by (auto simp: os_def)
    from random_randint_range [OF _ this(1)] have "k \<le> 9" by simp
    then show "x \<le> 9" unfolding x by simp
  qed
  have bu: "\<forall>x \<in> set us. x \<le> 10"
  proof
    fix x assume "x \<in> set us"
    then obtain y where x: "x = clip 1 10 y"
      by (auto simp: us_def)
    have "1 \<le> clip 1 10 y \<and> clip 1 10 y \<le> 10"
      by (rule clip_bounds) simp
    then show "x \<le> 10" unfolding x by simp
  qed
  have bn: "\<forall>x \<in> set nad. x \<le> 8.6"
  proof
    fix x assume "x \<in> set nad"
    then obtain a b where ab: "(a, b) \<in> set (zip (map (\<lambda>x. x * 0.4) os) (map (\<lambda>x. x * 0.5) us))"
      and x: "x = a + b"
      by (auto simp: nad_def)
    from ab have "a \<in> set (map (\<lambda>x. x * 0.4) os)" "b \<in> set (map (\<lambda>x. x * 0.5) us)"
      by (rule set_zip_leftD, rule set_zip_rightD)
    then obtain v w where "v \<in> set os" "a = v * 0.4" "w \<in> set us" "b = w * 0.5"
      by auto
    with bo bu have "a \<le> 3.6" "b \<le> 5"
      by auto
    then show "x \<le> 8.6" unfolding x by simp
  qed
  have bm: "\<forall>y \<in> set nadn. y < 1.0"
  proof
    fix y assume "y \<in> set nadn"
    then obtain x where "x \<in> set nad" and y: "y = x / 9"
      by (auto simp: nadn_def)
    with bn have "x \<le> 8.6" by blast
    then show "y < 1.0" unfolding y by simp
  qed
  from sd run g1 g2 ln bn bm show ?thesis by blast
qed

theorem C6_simulated_nad_bound_witness:
  "\<exists>df df' nad nadn.
     simulate_data example_rng = Inr df \<and> calculate_autonomy_deficit df = Inr df' \<and>
     getitem df' ''NAD_Score'' = Inr (NumCol nad) \<and>
     getitem df' ''NAD_Score_Normalized'' = Inr (NumCol nadn) \<and>
     nad ! 0 \<le> 8.6 \<and> nadn ! 0 < 1.0"
proof -
  from C6_simulated_nad_bound [of example_rng] obtain df df' nad nadn where
    r: "simulate_data example_rng = Inr df" "calculate_autonomy_deficit df = Inr df'"
      "getitem df' ''NAD_Score'' = Inr (NumCol nad)"
      "getitem df' ''NAD_Score_Normalized'' = Inr (NumCol nadn)"
    and l: "length nad = 1000" "length nadn = 1000"
    and b: "\<forall>x \<in> set nad. x \<le> 8.6" "\<forall>y \<in> set nadn. y < 1.0"
    by (elim exE conjE)
  have "nad ! 0 \<in> set nad" "nadn ! 0 \<in> set nadn"
    using l by simp_all
  with b have "nad ! 0 \<le> 8.6" "nadn ! 0 < 1.0"
    by blast+
  with r show ?thesis by blast
qed

section \<open>Facts about the Trade-off Reporter\<close>

lemma distinct_group_keys: "distinct (group_keys ks)"
  by (simp add: group_keys_def)

lemma set_group_keys: "set (group_keys ks) = set ks"
  by (simp add: group_keys_def)

lemma select_rows_key:
  "distinct ks \<Longrightarrow>
   select_rows (map (\<lambda>x. x = g) ks) (map f ks) = (if g \<in> set ks then [f g] else [])"
  by (induction ks) (auto simp: select_rows_Cons select_rows_def)

lemma group_rows_nth:
  assumes "length ks = length vs"
  shows "group_rows ks vs k = map (\<lambda>i. vs ! i) (filter (\<lambda>i. ks ! i = k) [0..<length ks])"
proof -
  have "zip ks vs = map (\<lambda>i. (ks ! i, vs ! i)) [0..<length ks]"
    using assms by (intro nth_equalityI) simp_all
  then show ?thesis
    by (simp add: group_rows_def filter_map o_def)
qed

lemma group_metrics_result:
  assumes "getitem df ''Test_Group'' = Inr (StrCol gs)"
    and "getitem df ''Platform_Goal_Achieved'' = Inr (NumCol ps)"
    and "getitem df ''User_Comprehension_Score'' = Inr (NumCol cs)"
  shows "group_metrics df =
      Inr [(''Test_Group'', StrCol (group_keys gs)),
           (''Goal_Rate'', NumCol (map (\<lambda>k. mean (group_rows gs ps k)) (group_keys gs))),
           (''Comprehension_Avg'', NumCol (map (\<lambda>k. mean (group_rows gs cs k)) (group_keys gs)))]"
  using assms by (simp add: group_metrics_def)

lemma metric_of_goal_rate:
  "metric_of [(''Test_Group'', StrCol (group_keys gs)),
           (''Goal_Rate'', NumCol (map f (group_keys gs))),
           (''Comprehension_Avg'', NumCol (map h (group_keys gs)))] g ''Goal_Rate'' =
     (if g \<in> set gs then Inr (f g) else Inl IndexError)"
  by (simp add: metric_of_def loc_get_def select_rows_key distinct_group_keys set_group_keys)

lemma metric_of_comprehension_avg:
  "metric_of [(''Test_Group'', StrCol (group_keys gs)),
           (''Goal_Rate'', NumCol (map f (group_keys gs))),
           (''Comprehension_Avg'', NumCol (map h (group_keys gs)))] g ''Comprehension_Avg'' =
     (if g \<in> set gs then Inr (h g) else Inl IndexError)"
  by (simp add: metric_of_def loc_get_def select_rows_key distinct_group_keys set_group_keys)

lemma reporter_result:
  assumes "getitem df ''Test_Group'' = Inr (StrCol gs)"
    and "getitem df ''Platform_Goal_Achieved'' = Inr (NumCol ps)"
    and "getitem df ''User_Comprehension_Score'' = Inr (NumCol cs)"
  shows "generate_visualization df =
     (if ''A'' \<in> set gs \<and> ''B'' \<in> set gs then
        Inr [(''Metric'', StrCol [''Platform Goal Increase (%)'',
                                ''User Comprehension Drop (Points)'']),
          (''Value'',
             NumCol [fl (fl (mean (group_rows gs ps ''B'') - mean (group_rows gs ps ''A'')) * 100),
                     fl (mean (group_rows gs cs ''A'') - mean (group_rows gs cs ''B''))]),
          (''Type'', StrCol [''Platform Gain (Desired)'',
                              ''User Cost (Ethical Concern)''])]
      else Inl IndexError)"
  unfolding generate_visualization_def group_metrics_result [OF assms]
  by (simp add: metric_of_goal_rate metric_of_comprehension_avg Let_def)

subsection \<open>Double-precision arithmetic\<close>

text \<open>
  Normalising scales by a power of two, and an integer below \<open>2\<^sup>5\<^sup>3\<close> in absolute
  value is a double. Compensated summation of such integers is therefore exact.
\<close>

lemma rint_of_int: "rint (of_int k) = k"
  by (simp add: rint_def)

lemma normalize_mantissa_scale:
  "normalize_mantissa m e = (m', e') \<Longrightarrow> m' * 2 powi e' = m * 2 powi e"
proof (induction m e rule: normalize_mantissa.induct)
  case (1 m e)
  show ?case
  proof (cases "2 ^ 53 \<le> m")
    case True
    with "1.prems" have "normalize_mantissa (m / 2) (e + 1) = (m', e')"
      by (subst (asm) normalize_mantissa.simps) simp
    from "1.IH"(1) [OF True this] have "m' * 2 powi e' = m / 2 * 2 powi (e + 1)" .
    also have "\<dots> = m * 2 powi e"
      by (simp add: power_int_add)
    finally show ?thesis .
  next
    case False
    show ?thesis
    proof (cases "0 < m \<and> m < 2 ^ 52 \<and> - 1074 < e")
      case True
      with False "1.prems" have "normalize_mantissa (m * 2) (e - 1) = (m', e')"
        by (subst (asm) normalize_mantissa.simps) simp
      from "1.IH"(2) [OF False True this] have "m' * 2 powi e' = m * 2 * 2 powi (e - 1)" .
      also have "\<dots> = m * 2 powi e"
        by (simp add: power_int_diff)
      finally show ?thesis .
    next
      case no: False
      with False "1.prems" have "(m', e') = (m, e)"
        by (subst (asm) normalize_mantissa.simps) auto
      then show ?thesis by simp
    qed
  qed
qed

lemma normalize_mantissa_int:
  "m < 2 ^ 53 \<Longrightarrow> m \<in> \<int> \<Longrightarrow> fst (normalize_mantissa m e) \<in> \<int>"
proof (induction m e rule: normalize_mantissa.induct)
  case (1 m e)
  from "1.prems" have False: "\<not> 2 ^ 53 \<le> m" by simp
  show ?case
  proof (cases "0 < m \<and> m < 2 ^ 52 \<and> - 1074 < e")
    case True
    then have "m * 2 < 2 ^ 53" by simp
    moreover have "m * 2 \<in> \<int>" using "1.prems"(2) by simp
    ultimately have "fst (normalize_mantissa (m * 2) (e - 1)) \<in> \<int>"
      using "1.IH"(2) [OF False True] by blast
    then show ?thesis
      using False True by (subst normalize_mantissa.simps) simp
  next
    case no: False
    then show ?thesis
      using False "1.prems"(2) by (subst normalize_mantissa.simps) auto
  qed
qed

lemma fl_of_int:
  assumes "\<bar>k\<bar> < 2 ^ 53"
  shows "fl (of_int k) = of_int k"
proof -
  obtain m e where n: "normalize_mantissa \<bar>real_of_int k\<bar> 0 = (m, e)"
    by (cases "normalize_mantissa \<bar>real_of_int k\<bar> 0")
  have "real_of_int \<bar>k\<bar> < real_of_int (2 ^ 53)"
    using assms by (simp only: of_int_less_iff)
  then have "\<bar>real_of_int k\<bar> < 2 ^ 53"
    by simp
  moreover have "\<bar>real_of_int k\<bar> \<in> \<int>"
    by simp
  ultimately have "fst (normalize_mantissa \<bar>real_of_int k\<bar> 0) \<in> \<int>"
    by (rule normalize_mantissa_int)
  then obtain j where m: "m = of_int j"
    unfolding n by (auto elim: Ints_cases)
  from normalize_mantissa_scale [OF n] have "m * 2 powi e = \<bar>real_of_int k\<bar>"
    by simp
  then have "fl (of_int k) = sgn (real_of_int k) * \<bar>real_of_int k\<bar>"
    by (simp add: fl_def n m rint_of_int mult.assoc)
  then show ?thesis
    by (simp add: sgn_mult_abs)
qed

lemma fl_0: "fl 0 = 0"
  using fl_of_int [of 0] by simp

lemma fl_1: "fl 1 = 1"
  using fl_of_int [of 1] by simp

lemma fl_numeral: "(numeral n :: int) < 2 ^ 53 \<Longrightarrow> fl (numeral n) = numeral n"
  using fl_of_int [of "numeral n"] by simp

lemma kahan_sum_ints:
  assumes "0 \<le> s" and "\<forall>k \<in> set ks. 0 \<le> k" and "s + sum_list ks < 2 ^ 53"
  shows "kahan_sum (of_int s) 0 (map of_int ks) = of_int (s + sum_list ks)"
  using assms
proof (induction ks arbitrary: s)
  case Nil
  show ?case by simp
next
  case (Cons k ks)
  from Cons.prems have k: "0 \<le> k" and rest: "\<forall>k \<in> set ks. 0 \<le> k"
    by simp_all
  have "0 \<le> sum_list ks"
    using rest by (simp add: sum_list_nonneg)
  with Cons.prems k have bk: "\<bar>k\<bar> < 2 ^ 53" and bs: "\<bar>s + k\<bar> < 2 ^ 53"
    by simp_all
  have y: "fl (real_of_int k - 0) = of_int k"
    using fl_of_int [OF bk] by simp
  have t: "fl (real_of_int s + real_of_int k) = of_int (s + k)"
    using fl_of_int [OF bs] by simp
  have c: "fl (fl (real_of_int (s + k) - real_of_int s) - real_of_int k) = 0"
    using fl_of_int [OF bk] fl_0 by simp
  have "kahan_sum (of_int s) 0 (map of_int (k # ks)) = kahan_sum (of_int (s + k)) 0 (map of_int ks)"
    by (simp only: list.map kahan_sum.simps Let_def y t c)
  also have "\<dots> = of_int (s + k + sum_list ks)"
    using Cons.prems k rest by (intro Cons.IH) simp_all
  finally show ?case
    by (simp add: add.assoc)
qed

lemma mean_ints:
  assumes "\<forall>k \<in> set ks. 0 \<le> k" and "sum_list ks < 2 ^ 53"
  shows "mean (map of_int ks) = fl (of_int (sum_list ks) / real (length ks))"
  using kahan_sum_ints [of 0 ks] assms by (simp add: mean_def)

text \<open>Rounding to double precision at the values of the example.\<close>

lemma fl_035: "fl 0.35 = 6305039478318694 / 2 ^ 54"
  by (simp add: fl_def normalize_mantissa.simps rint_def)

lemma fl_nudge_example: "fl (fl (fl 0.35 - 0.25) * 100) = 10 - 1 / 2 ^ 49"
  by (simp add: fl_def normalize_mantissa.simps rint_def)

lemma fl_cost_example: "fl (7 - 5.5) = 1.5"
  by (simp add: fl_def normalize_mantissa.simps rint_def)

lemma fl_quarter: "fl (1 / 4) = 0.25"
  by (simp add: fl_def normalize_mantissa.simps rint_def)

lemma fl_7_20: "fl (7 / 20) = fl 0.35"
  by simp

lemma fl_11_2: "fl (11 / 2) = 5.5"
  by (simp add: fl_def normalize_mantissa.simps rint_def)

lemma mean_example_goals_a: "mean [1, 0, 0, 0] = 0.25"
proof -
  have "[1, 0, 0, 0 :: real] = map real_of_int [1, 0, 0, 0]"
    by simp
  then have "mean [1, 0, 0, 0] = fl (1 / 4)"
    using mean_ints [of "[1, 0, 0, 0]"] by simp
  then show ?thesis
    by (simp only: fl_quarter)
qed

lemma mean_example_goals_b:
  "mean [1, 0, 0, 1, 0, 1, 0, 0, 1, 0, 1, 0, 0, 1, 0, 1, 0, 0, 0, 0] = fl 0.35"
proof -
  have "[1, 0, 0, 1, 0, 1, 0, 0, 1, 0, 1, 0, 0, 1, 0, 1, 0, 0, 0, 0 :: real] =
      map real_of_int [1, 0, 0, 1, 0, 1, 0, 0, 1, 0, 1, 0, 0, 1, 0, 1, 0, 0, 0, 0]"
    by simp
  then have "mean [1, 0, 0, 1, 0, 1, 0, 0, 1, 0, 1, 0, 0, 1, 0, 1, 0, 0, 0, 0] = fl (7 / 20)"
    using mean_ints [of "[1, 0, 0, 1, 0, 1, 0, 0, 1, 0, 1, 0, 0, 1, 0, 1, 0, 0, 0, 0]"] by simp
  then show ?thesis
    by (simp only: fl_7_20)
qed

lemma mean_example_comprehension_a: "mean [7, 8, 6, 7] = 7"
proof -
  have "[7, 8, 6, 7 :: real] = map real_of_int [7, 8, 6, 7]"
    by simp
  then have "mean [7, 8, 6, 7] = fl (real_of_int 7)"
    using mean_ints [of "[7, 8, 6, 7]"] by simp
  then show ?thesis
    using fl_of_int [of 7] by simp
qed

lemma mean_example_comprehension_b:
  "mean [6, 6, 6, 6, 6, 6, 6, 6, 6, 6, 5, 5, 5, 5, 5, 5, 5, 5, 5, 5] = 5.5"
proof -
  have "[6, 6, 6, 6, 6, 6, 6, 6, 6, 6, 5, 5, 5, 5, 5, 5, 5, 5, 5, 5 :: real] =
      map real_of_int [6, 6, 6, 6, 6, 6, 6, 6, 6, 6, 5, 5, 5, 5, 5, 5, 5, 5, 5, 5]"
    by simp
  then have "mean [6, 6, 6, 6, 6, 6, 6, 6, 6, 6, 5, 5, 5, 5, 5, 5, 5, 5, 5, 5] = fl (11 / 2)"
    using mean_ints [of "[6, 6, 6, 6, 6, 6, 6, 6, 6, 6, 5, 5, 5, 5, 5, 5, 5, 5, 5, 5]"] by simp
  then show ?thesis
    by (simp only: fl_11_2)
qed

lemma example_group_rows:
  "group_rows example_groups example_goals ''A'' = [1, 0, 0, 0]"
  "group_rows example_groups example_goals ''B'' =
     [1, 0, 0, 1, 0, 1, 0, 0, 1, 0, 1, 0, 0, 1, 0, 1, 0, 0, 0, 0]"
  "group_rows example_groups example_comprehension ''A'' = [7, 8, 6, 7]"
  "group_rows example_groups example_comprehension ''B'' =
     [6, 6, 6, 6, 6, 6, 6, 6, 6, 6, 5, 5, 5, 5, 5, 5, 5, 5, 5, 5]"
  by (simp_all add: group_rows_def example_groups_def example_goals_def
      example_comprehension_def)

lemma example_scored_columns:
  "getitem example_scored ''Test_Group'' = Inr (StrCol example_groups)"
  "getitem example_scored ''Platform_Goal_Achieved'' = Inr (NumCol example_goals)"
  "getitem example_scored ''User_Comprehension_Score'' = Inr (NumCol example_comprehension)"
  by (simp_all add: example_scored_def)

lemma example_scored_lengths:
  "length example_goals = length example_groups"
  "length example_comprehension = length example_groups"
  by (simp_all add: example_goals_def example_comprehension_def example_groups_def)

lemma example_scored_groups:
  "''A'' \<in> set example_groups" "''B'' \<in> set example_groups"
  by (simp_all add: example_groups_def)

section \<open>The claims about the Trade-off Reporter\<close>

text \<open>
  Claim C2, as the code has it. On every table whose Test_Group column has rows of
  group A and of group B, the reporter hands on a table whose values are
  nudge_effect, the mean of Platform_Goal_Achieved over the rows of group B minus
  that over the rows of group A, times 100, and ethical_cost, the mean of
  User_Comprehension_Score over the rows of group A minus that over the rows of
  group B, all in float64 arithmetic. With the goal rates 0.25 for A and 0.35 for B,
  the latter being the double nearest to 0.35, the nudge_effect is the double just
  below ten, \<open>10 - 2\<^sup>-\<^sup>4\<^sup>9\<close>, which prints as 9.999999999999998: a number of percentage
  points, not a fraction, and 10.0 only up to rounding.
\<close>

theorem C2_tradeoff:
  assumes "getitem df ''Test_Group'' = Inr (StrCol gs)"
    and "getitem df ''Platform_Goal_Achieved'' = Inr (NumCol ps)"
    and "getitem df ''User_Comprehension_Score'' = Inr (NumCol cs)"
    and "length ps = length gs" and "length cs = length gs"
    and "''A'' \<in> set gs" and "''B'' \<in> set gs"
  shows "\<exists>goal_a goal_b comprehension_a comprehension_b nudge_effect ethical_cost.
      goal_a = mean (map (\<lambda>i. ps ! i) (filter (\<lambda>i. gs ! i = ''A'') [0..<length gs])) \<and>
      goal_b = mean (map (\<lambda>i. ps ! i) (filter (\<lambda>i. gs ! i = ''B'') [0..<length gs])) \<and>
      comprehension_a = mean (map (\<lambda>i. cs ! i) (filter (\<lambda>i. gs ! i = ''A'') [0..<length gs])) \<and>
      comprehension_b = mean (map (\<lambda>i. cs ! i) (filter (\<lambda>i. gs ! i = ''B'') [0..<length gs])) \<and>
      generate_visualization df =
        Inr [(''Metric'', StrCol [''Platform Goal Increase (%)'',
                                   ''User Comprehension Drop (Points)'']),
             (''Value'', NumCol [nudge_effect, ethical_cost]),
             (''Type'', StrCol [''Platform Gain (Desired)'',
                                 ''User Cost (Ethical Concern)''])] \<and>
      nudge_effect = fl (fl (goal_b - goal_a) * 100) \<and>
      ethical_cost = fl (comprehension_a - comprehension_b) \<and>
      (goal_a = 0.25 \<and> goal_b = fl 0.35 \<longrightarrow>
         nudge_effect = 10 - 1 / 2 ^ 49 \<and> nudge_effect \<noteq> 10.0 \<and>
         \<bar>nudge_effect - 10.0\<bar> < 1 / 10 ^ 14)"
proof -
  have p: "group_rows gs ps k = map (\<lambda>i. ps ! i) (filter (\<lambda>i. gs ! i = k) [0..<length gs])" for k
    using assms(4) by (intro group_rows_nth) simp
  have c: "group_rows gs cs k = map (\<lambda>i. cs ! i) (filter (\<lambda>i. gs ! i = k) [0..<length gs])" for k
    using assms(5) by (intro group_rows_nth) simp
  define goal_a where "goal_a = mean (group_rows gs ps ''A'')"
  define goal_b where "goal_b = mean (group_rows gs ps ''B'')"
  define comprehension_a where "comprehension_a = mean (group_rows gs cs ''A'')"
  define comprehension_b where "comprehension_b = mean (group_rows gs cs ''B'')"
  define nudge_effect where "nudge_effect = fl (fl (goal_b - goal_a) * 100)"
  define ethical_cost where "ethical_cost = fl (comprehension_a - comprehension_b)"
  have r: "generate_visualization df =
        Inr [(''Metric'', StrCol [''Platform Goal Increase (%)'',
                                   ''User Comprehension Drop (Points)'']),
             (''Value'', NumCol [nudge_effect, ethical_cost]),
             (''Type'', StrCol [''Platform Gain (Desired)'',
                                 ''User Cost (Ethical Concern)''])]"
    using reporter_result [OF assms(1-3)] assms(6,7)
    by (simp add: nudge_effect_def ethical_cost_def goal_a_def goal_b_def
        comprehension_a_def comprehension_b_def)
  have ex: "goal_a = 0.25 \<and> goal_b = fl 0.35 \<longrightarrow>
         nudge_effect = 10 - 1 / 2 ^ 49 \<and> nudge_effect \<noteq> 10.0 \<and>
         \<bar>nudge_effect - 10.0\<bar> < 1 / 10 ^ 14"
  proof (intro impI, elim conjE)
    assume "goal_a = 0.25" "goal_b = fl 0.35"
    then have "nudge_effect = 10 - 1 / 2 ^ 49"
      unfolding nudge_effect_def by (simp only: fl_nudge_example)
    then show "nudge_effect = 10 - 1 / 2 ^ 49 \<and> nudge_effect \<noteq> 10.0 \<and>
         \<bar>nudge_effect - 10.0\<bar> < 1 / 10 ^ 14"
      by simp
  qed
  have "goal_a = mean (map (\<lambda>i. ps ! i) (filter (\<lambda>i. gs ! i = ''A'') [0..<length gs]))"
    "goal_b = mean (map (\<lambda>i. ps ! i) (filter (\<lambda>i. gs ! i = ''B'') [0..<length gs]))"
    "comprehension_a = mean (map (\<lambda>i. cs ! i) (filter (\<lambda>i. gs ! i = ''A'') [0..<length gs]))"
    "comprehension_b = mean (map (\<lambda>i. cs ! i) (filter (\<lambda>i. gs ! i = ''B'') [0..<length gs]))"
    by (simp_all only: goal_a_def goal_b_def comprehension_a_def comprehension_b_def p c)
  with r ex nudge_effect_def ethical_cost_def show ?thesis
    by blast
qed

theorem C2_tradeoff_witness:
  "generate_visualization example_scored =
     Inr [(''Metric'', StrCol [''Platform Goal Increase (%)'',
                                ''User Comprehension Drop (Points)'']),
          (''Value'', NumCol [10 - 1 / 2 ^ 49, 1.5]),
          (''Type'', StrCol [''Platform Gain (Desired)'',
                              ''User Cost (Ethical Concern)''])]"
proof -
  have rows: "map (\<lambda>i. vs ! i) (filter (\<lambda>i. example_groups ! i = k) [0..<length example_groups]) =
      group_rows example_groups vs k" if "length vs = length example_groups" for vs :: "real list" and k
    using that by (intro group_rows_nth [symmetric]) simp
  from C2_tradeoff [OF example_scored_columns example_scored_lengths example_scored_groups]
  obtain goal_a goal_b comprehension_a comprehension_b nudge_effect ethical_cost where
    ga: "goal_a = mean (map (\<lambda>i. example_goals ! i)
        (filter (\<lambda>i. example_groups ! i = ''A'') [0..<length example_groups]))"
    and gb: "goal_b = mean (map (\<lambda>i. example_goals ! i)
        (filter (\<lambda>i. example_groups ! i = ''B'') [0..<length example_groups]))"
    and ca: "comprehension_a = mean (map (\<lambda>i. example_comprehension ! i)
        (filter (\<lambda>i. example_groups ! i = ''A'') [0..<length example_groups]))"
    and cb: "comprehension_b = mean (map (\<lambda>i. example_comprehension ! i)
        (filter (\<lambda>i. example_groups ! i = ''B'') [0..<length example_groups]))"
    and r: "generate_visualization example_scored =
        Inr [(''Metric'', StrCol [''Platform Goal Increase (%)'',
                                   ''User Comprehension Drop (Points)'']),
             (''Value'', NumCol [nudge_effect, ethical_cost]),
             (''Type'', StrCol [''Platform Gain (Desired)'',
                                 ''User Cost (Ethical Concern)''])]"
    and e: "ethical_cost = fl (comprehension_a - comprehension_b)"
    and n: "goal_a = 0.25 \<and> goal_b = fl 0.35 \<longrightarrow>
         nudge_effect = 10 - 1 / 2 ^ 49 \<and> nudge_effect \<noteq> 10.0 \<and>
         \<bar>nudge_effect - 10.0\<bar> < 1 / 10 ^ 14"
    by (elim exE conjE)
  have "goal_a = 0.25 \<and> goal_b = fl 0.35"
    unfolding ga gb rows [OF example_scored_lengths(1)] example_group_rows
      mean_example_goals_a mean_example_goals_b by simp
  with n have 1: "nudge_effect = 10 - 1 / 2 ^ 49" by blast
  have 2: "ethical_cost = 1.5"
    unfolding e ca cb rows [OF example_scored_lengths(2)] example_group_rows
      mean_example_comprehension_a mean_example_comprehension_b by (rule fl_cost_example)
  show ?thesis
    using r unfolding 1 2 .
qed

text \<open>
  The claim as it was stated has the goal rates 0.25 and 0.35 give the nudge_effect
  10.0. On the example table the goal rates are 0.25 and the double nearest to 0.35,
  and the value that the reporter hands on is not 10.0.
\<close>

theorem C2_nudge_effect_counterexample:
  "mean (group_rows example_groups example_goals ''A'') = 0.25 \<and>
   mean (group_rows example_groups example_goals ''B'') = fl 0.35 \<and>
   generate_visualization example_scored =
     Inr [(''Metric'', StrCol [''Platform Goal Increase (%)'',
                                ''User Comprehension Drop (Points)'']),
          (''Value'', NumCol [10 - 1 / 2 ^ 49, 1.5]),
          (''Type'', StrCol [''Platform Gain (Desired)'',
                              ''User Cost (Ethical Concern)''])] \<and>
   (10 - 1 / 2 ^ 49 :: real) \<noteq> 10.0"
proof -
  have a: "mean (group_rows example_groups example_goals ''A'') = 0.25"
    unfolding example_group_rows by (rule mean_example_goals_a)
  have b: "mean (group_rows example_groups example_goals ''B'') = fl 0.35"
    unfolding example_group_rows by (rule mean_example_goals_b)
  have c: "fl (mean (group_rows example_groups example_comprehension ''A'') -
      mean (group_rows example_groups example_comprehension ''B'')) = 1.5"
    unfolding example_group_rows mean_example_comprehension_a mean_example_comprehension_b
    by (rule fl_cost_example)
  have n: "fl (fl (mean (group_rows example_groups example_goals ''B'') -
      mean (group_rows example_groups example_goals ''A'')) * 100) = 10 - 1 / 2 ^ 49"
    unfolding a b by (rule fl_nudge_example)
  have r: "generate_visualization example_scored =
     Inr [(''Metric'', StrCol [''Platform Goal Increase (%)'',
                                ''User Comprehension Drop (Points)'']),
          (''Value'', NumCol [10 - 1 / 2 ^ 49, 1.5]),
          (''Type'', StrCol [''Platform Gain (Desired)'',
                              ''User Cost (Ethical Concern)''])]"
    using reporter_result [OF example_scored_columns] example_scored_groups
    unfolding n c by simp
  have "(10 - 1 / 2 ^ 49 :: real) \<noteq> 10.0"
    by simp
  with a b r show ?thesis by blast
qed

text \<open>
  Claim C10. On a table with the three columns that the reporter reads, the reporter
  fails with an IndexError when no row is of group A or no row is of group B: the
  aggregated table has no row for that group, and taking the first entry of the
  empty selection is out of range. Nothing in the reporter checks for this before.
\<close>

theorem C10_missing_group:
  assumes "getitem df ''Test_Group'' = Inr (StrCol gs)"
    and "getitem df ''Platform_Goal_Achieved'' = Inr (NumCol ps)"
    and "getitem df ''User_Comprehension_Score'' = Inr (NumCol cs)"
    and "''A'' \<notin> set gs \<or> ''B'' \<notin> set gs"
  shows "generate_visualization df = Inl IndexError"
  using reporter_result [OF assms(1-3)] assms(4) by auto

theorem C10_missing_group_witness:
  "generate_visualization example_only_a = Inl IndexError \<and>
   generate_visualization example_only_b = Inl IndexError"
proof -
  have a: "getitem example_only_a ''Test_Group'' = Inr (StrCol [''A'', ''A''])"
    "getitem example_only_a ''Platform_Goal_Achieved'' = Inr (NumCol [0, 1])"
    "getitem example_only_a ''User_Comprehension_Score'' = Inr (NumCol [7, 6.5])"
    by (simp_all add: example_only_a_def)
  have na: "''A'' \<notin> set [''A'', ''A''] \<or> ''B'' \<notin> set [''A'', ''A'']"
    by simp
  have b: "getitem example_only_b ''Test_Group'' = Inr (StrCol [''B'', ''B''])"
    "getitem example_only_b ''Platform_Goal_Achieved'' = Inr (NumCol [0, 1])"
    "getitem example_only_b ''User_Comprehension_Score'' = Inr (NumCol [7, 6.5])"
    by (simp_all add: example_only_b_def)
  have nb: "''A'' \<notin> set [''B'', ''B''] \<or> ''B'' \<notin> set [''B'', ''B'']"
    by simp
  show ?thesis
    using C10_missing_group [OF a na] C10_missing_group [OF b nb] by simp
qed

end
